theory Spec2Isabelle
  imports Complex_Main
begin

section \<open>Numbers and the clock\<close>

text \<open>
  The source computes with the numbers of its language: finite values are modelled as
  reals, and every arithmetic operation of the source rounds its exact result with a
  rounding function \<open>rnd\<close>, which all definitions take as their first argument. The
  language's own format is \<open>binary64\<close> below; \<open>\<lambda>x. x\<close> is exact arithmetic. Decimal
  literals that are not integers (\<open>9.8\<close>, \<open>0.3\<close>, \<open>0.2\<close>) denote the rounded value.
  Not-a-number and the infinities are outside the model.

  \<open>Date.now()\<close> yields whole milliseconds, modelled as \<open>int\<close>; differences of clock
  readings are exact. Each clock reading of the source is an explicit argument.
\<close>

type_synonym rounding = "real \<Rightarrow> real"

text \<open>Round to the nearest integer, ties to the even one.\<close>

definition rne :: "real \<Rightarrow> int" where
  "rne r =
     (let f = \<lfloor>r\<rfloor>; d = r - of_int f
      in if d < 1 / 2 then f
         else if 1 / 2 < d then f + 1
         else if even f then f else f + 1)"

text \<open>
  The language's number format: 53 significant bits, round to nearest, ties to even
  (exponent range not bounded: no overflow to infinity, no subnormal numbers).
\<close>

definition binary64 :: rounding where
  "binary64 x =
     (if x = 0 then 0
      else (let e = \<lfloor>log 2 \<bar>x\<bar>\<rfloor> - 52
            in of_int (rne (x / 2 powi e)) * 2 powi e))"

text \<open>The standard model of rounded arithmetic: the relative error is at most \<open>2\<^sup>-\<^sup>5\<^sup>3\<close>.\<close>

definition rounds :: "rounding \<Rightarrow> bool" where
  "rounds rnd \<longleftrightarrow> (\<forall>x. \<bar>rnd x - x\<bar> \<le> \<bar>x\<bar> / 2 ^ 53)"

text \<open>The operator \<open>a ?? b\<close>.\<close>

definition nullish :: "'a option \<Rightarrow> 'a \<Rightarrow> 'a" where
  "nullish a b = (case a of None \<Rightarrow> b | Some v \<Rightarrow> v)"

section \<open>src/utils/sensors.ts\<close>

record DeviationData =
  "value" :: real
  timestamp :: int

record StationaryDetectionResult =
  isStationary_res :: bool
  mean :: real
  standardDeviation :: real
  duration :: int
  stateChanged :: bool

text \<open>
  The class \<open>StationaryDetector\<close>: its three mutable fields and its five read-only
  parameters. (The result's field \<open>isStationary\<close> is \<open>isStationary_res\<close> above.)
\<close>

record StationaryDetector =
  deviationHistory :: "DeviationData list"
  isStationary :: bool
  stationaryStartTime :: "int option"
  historyDurationMs :: real
  meanThreshold :: real
  stdThreshold :: real
  stationaryDurationMs :: real
  minSampleCount :: real

text \<open>The constructor; an absent \<open>options\<close> object is five absent fields.\<close>

definition newStationaryDetector ::
  "rounding \<Rightarrow> real option \<Rightarrow> real option \<Rightarrow> real option \<Rightarrow> real option \<Rightarrow> real option
     \<Rightarrow> StationaryDetector" where
  "newStationaryDetector rnd optHistoryDurationMs optMeanThreshold optStdThreshold
       optStationaryDurationMs optMinSampleCount =
     \<lparr>deviationHistory = [],
      isStationary = False,
      stationaryStartTime = None,
      historyDurationMs = nullish optHistoryDurationMs 2000,
      meanThreshold = nullish optMeanThreshold (rnd (3 / 10)),
      stdThreshold = nullish optStdThreshold (rnd (2 / 10)),
      stationaryDurationMs = nullish optStationaryDurationMs 2000,
      minSampleCount = nullish optMinSampleCount 10\<rparr>"

text \<open>\<open>addDeviationData\<close>; \<open>now\<close> is its reading of the clock.\<close>

definition addDeviationData :: "StationaryDetector \<Rightarrow> int \<Rightarrow> real \<Rightarrow> StationaryDetector" where
  "addDeviationData d now deviation =
     (let pushed = deviationHistory d @ [\<lparr>value = deviation, timestamp = now\<rparr>]
      in d\<lparr>deviationHistory :=
             filter (\<lambda>data. real_of_int (now - timestamp data) \<le> historyDurationMs d) pushed\<rparr>)"

definition calculateMean :: "rounding \<Rightarrow> StationaryDetector \<Rightarrow> real" where
  "calculateMean rnd d =
     (if length (deviationHistory d) = 0 then 0
      else (let total = foldl (\<lambda>acc data. rnd (acc + value data)) 0 (deviationHistory d)
            in rnd (total / real (length (deviationHistory d)))))"

definition calculateStandardDeviation :: "rounding \<Rightarrow> StationaryDetector \<Rightarrow> real" where
  "calculateStandardDeviation rnd d =
     (if length (deviationHistory d) = 0 then 0
      else (let mean = calculateMean rnd d;
                squaredDiffs = map (\<lambda>data. rnd ((rnd (value data - mean))\<^sup>2)) (deviationHistory d);
                variance = rnd (foldl (\<lambda>acc val. rnd (acc + val)) 0 squaredDiffs
                                  / real (length (deviationHistory d)))
            in rnd (sqrt variance)))"

text \<open>Lines 107 and 108 of \<open>detectStationary\<close>: the magnitude and its deviation from 9.8.\<close>

definition magnitude :: "rounding \<Rightarrow> real \<Rightarrow> real \<Rightarrow> real \<Rightarrow> real" where
  "magnitude rnd x y z = rnd (sqrt (rnd (rnd (rnd (x * x) + rnd (y * y)) + rnd (z * z))))"

definition deviation :: "rounding \<Rightarrow> real \<Rightarrow> real \<Rightarrow> real \<Rightarrow> real" where
  "deviation rnd x y z = \<bar>rnd (magnitude rnd x y z - rnd (98 / 10))\<bar>"

text \<open>The result returned when the window holds too few samples (lines 163 to 169).\<close>

definition neutral :: StationaryDetectionResult where
  "neutral = \<lparr>isStationary_res = False, mean = 0, standardDeviation = 0, duration = 0,
               stateChanged = False\<rparr>"

text \<open>
  \<open>detectStationary\<close>: \<open>now1\<close> is the clock as \<open>addDeviationData\<close> reads it, \<open>now\<close> the
  clock as line 113 reads it. The call returns its result and the detector after it.
  The test \<open>this.stationaryStartTime ? \<dots> : 0\<close> of line 149 takes the start time 0 as
  absent.
\<close>

definition detectStationary ::
  "rounding \<Rightarrow> StationaryDetector \<Rightarrow> int \<Rightarrow> int \<Rightarrow> real \<Rightarrow> real \<Rightarrow> real
     \<Rightarrow> StationaryDetectionResult \<times> StationaryDetector" where
  "detectStationary rnd d0 now1 now x y z =
     (let d = addDeviationData d0 now1 (deviation rnd x y z);
          wasStationary = isStationary d
      in if minSampleCount d \<le> real (length (deviationHistory d)) then
           (let mean = calculateMean rnd d;
                std = calculateStandardDeviation rnd d;
                isCurrentlyStationary = (mean < meanThreshold d \<and> std < stdThreshold d);
                (d', stateChanged) =
                  (if isCurrentlyStationary then
                     (let start = (case stationaryStartTime d of None \<Rightarrow> now | Some t \<Rightarrow> t);
                          d1 = d\<lparr>stationaryStartTime := Some start\<rparr>;
                          stationaryDuration = now - start
                      in if stationaryDurationMs d \<le> real_of_int stationaryDuration
                         then (d1\<lparr>isStationary := True\<rparr>, \<not> wasStationary)
                         else (d1, False))
                   else (d\<lparr>isStationary := False, stationaryStartTime := None\<rparr>, wasStationary));
                duration = (case stationaryStartTime d' of
                              None \<Rightarrow> 0
                            | Some t \<Rightarrow> if t = 0 then 0 else now - t)
            in (\<lparr>isStationary_res = isStationary d', mean = mean, standardDeviation = std,
                 duration = duration, stateChanged = stateChanged\<rparr>, d'))
         else (neutral, d))"

definition getIsStationary :: "StationaryDetector \<Rightarrow> bool" where
  "getIsStationary d = isStationary d"

definition reset :: "StationaryDetector \<Rightarrow> StationaryDetector" where
  "reset d = d\<lparr>deviationHistory := [], isStationary := False, stationaryStartTime := None\<rparr>"

text \<open>
  A sequence of calls: each input is the two clock readings and the sample. \<open>trace\<close>
  lists, call by call, the result and the detector after the call.
\<close>

type_synonym call = "int \<times> int \<times> real \<times> real \<times> real"

definition detectCall :: "rounding \<Rightarrow> StationaryDetector \<Rightarrow> call
     \<Rightarrow> StationaryDetectionResult \<times> StationaryDetector" where
  "detectCall rnd d c = (case c of (now1, now, x, y, z) \<Rightarrow> detectStationary rnd d now1 now x y z)"

fun trace :: "rounding \<Rightarrow> StationaryDetector \<Rightarrow> call list
     \<Rightarrow> (StationaryDetectionResult \<times> StationaryDetector) list" where
  "trace rnd d [] = []"
| "trace rnd d (c # cs) = detectCall rnd d c # trace rnd (snd (detectCall rnd d c)) cs"

text \<open>The clock reading of line 113 in a call, and the deviation of its sample.\<close>

definition callNow :: "call \<Rightarrow> int" where
  "callNow c = (case c of (now1, now, x, y, z) \<Rightarrow> now)"

definition callDeviation :: "rounding \<Rightarrow> call \<Rightarrow> real" where
  "callDeviation rnd c = (case c of (now1, now, x, y, z) \<Rightarrow> deviation rnd x y z)"

text \<open>
  Names for the three tests of \<open>detectStationary\<close>: the detector after line 111 has
  inserted the sample and pruned the window, the test of line 118 and the test of lines
  123 and 124.
\<close>

definition inserted ::
  "rounding \<Rightarrow> StationaryDetector \<Rightarrow> int \<Rightarrow> real \<Rightarrow> real \<Rightarrow> real \<Rightarrow> StationaryDetector" where
  "inserted rnd d now1 x y z = addDeviationData d now1 (deviation rnd x y z)"

definition enoughSamples :: "StationaryDetector \<Rightarrow> bool" where
  "enoughSamples d \<longleftrightarrow> minSampleCount d \<le> real (length (deviationHistory d))"

definition currentlyQuiet :: "rounding \<Rightarrow> StationaryDetector \<Rightarrow> bool" where
  "currentlyQuiet rnd d \<longleftrightarrow>
     calculateMean rnd d < meanThreshold d \<and> calculateStandardDeviation rnd d < stdThreshold d"

text \<open>
  The invariant of the window, \<open>t\<close> being the clock at the latest insertion: every
  retained sample is at most \<open>historyDurationMs\<close> old and not from the future, and the
  samples stand in the order of their timestamps.
\<close>

definition windowInvariant :: "StationaryDetector \<Rightarrow> int \<Rightarrow> bool" where
  "windowInvariant d t \<longleftrightarrow>
     (\<forall>s \<in> set (deviationHistory d).
        real_of_int (t - timestamp s) \<le> historyDurationMs d \<and> timestamp s \<le> t) \<and>
     sorted (map timestamp (deviationHistory d))"

text \<open>A window all of whose samples have deviation 0.\<close>

definition zeroWindow :: "StationaryDetector \<Rightarrow> bool" where
  "zeroWindow d \<longleftrightarrow> (\<forall>s \<in> set (deviationHistory d). value s = 0)"

text \<open>The detector after a sequence of calls.\<close>

definition stateAfter :: "rounding \<Rightarrow> StationaryDetector \<Rightarrow> call list \<Rightarrow> StationaryDetector" where
  "stateAfter rnd d cs = foldl (\<lambda>d' c. snd (detectCall rnd d' c)) d cs"

section \<open>src/LocationService.ts\<close>

definition GPS_DRIFT_SPEED_THRESHOLD :: "rounding \<Rightarrow> real" where
  "GPS_DRIFT_SPEED_THRESHOLD rnd = rnd (3 / 10)"

text \<open>
  The detector of the service, as its constructor builds it.
\<close>

definition serviceDetector :: "rounding \<Rightarrow> StationaryDetector" where
  "serviceDetector rnd =
     newStationaryDetector rnd (Some 2000) (Some (rnd (3 / 10))) (Some (rnd (2 / 10)))
       (Some 2000) (Some 10)"

text \<open>
  The drift warning of the position callback (lines 85 to 94): the callback reads the
  speed of the fix, 0 when the fix has none, and warns of drift with that speed. The
  warning's fixed texts and the formatting of the speed are left out.
\<close>

record DriftWarning =
  gpsSpeed :: real

definition positionCallback :: "rounding \<Rightarrow> StationaryDetector \<Rightarrow> real option
     \<Rightarrow> DriftWarning option" where
  "positionCallback rnd d coordsSpeed =
     (let speed = nullish coordsSpeed 0
      in if getIsStationary d \<and> GPS_DRIFT_SPEED_THRESHOLD rnd < speed
         then Some \<lparr>gpsSpeed = speed\<rparr>
         else None)"

section \<open>Example detectors\<close>

text \<open>
  Seven samples of deviation 0 under exact arithmetic, one every 500 ms from 500 to
  3500; and the stationary detector they leave, with a window of 2000 ms and at least 2
  samples required: the quiet streak began at 1000.
\<close>

definition settlingCalls :: "call list" where
  "settlingCalls =
    [(500, 500, 0, 0, 98 / 10), (1000, 1000, 0, 0, 98 / 10), (1500, 1500, 0, 0, 98 / 10),
     (2000, 2000, 0, 0, 98 / 10), (2500, 2500, 0, 0, 98 / 10), (3000, 3000, 0, 0, 98 / 10),
     (3500, 3500, 0, 0, 98 / 10)]"

definition stationaryExample :: StationaryDetector where
  "stationaryExample =
     \<lparr>deviationHistory =
        [\<lparr>value = 0, timestamp = 1500\<rparr>, \<lparr>value = 0, timestamp = 2000\<rparr>,
         \<lparr>value = 0, timestamp = 2500\<rparr>, \<lparr>value = 0, timestamp = 3000\<rparr>,
         \<lparr>value = 0, timestamp = 3500\<rparr>],
      isStationary = True,
      stationaryStartTime = Some 1000,
      historyDurationMs = 2000,
      meanThreshold = 3 / 10,
      stdThreshold = 2 / 10,
      stationaryDurationMs = 2000,
      minSampleCount = 2\<rparr>"

text \<open>
  A detector with the default parameters but one sample required, just constructed,
  under exact arithmetic and in the language's format; and the first of the two after
  one quiet call at 5000.
\<close>

definition sensitiveExample :: StationaryDetector where
  "sensitiveExample = newStationaryDetector (\<lambda>x. x) None None None None (Some 1)"

definition sensitiveDouble :: StationaryDetector where
  "sensitiveDouble = newStationaryDetector binary64 None None None None (Some 1)"

definition dwellExample :: StationaryDetector where
  "dwellExample = snd (detectStationary (\<lambda>x. x) sensitiveExample 5000 5000 0 0 10)"


text \<open>Eleven samples \<open>(0, 0, 9.8)\<close> of the language's format, one every 3000 ms.\<close>

definition sparseDoubleCalls :: "call list" where
  "sparseDoubleCalls =
    [(1000, 1000, 0, 0, binary64 (98 / 10)), (4000, 4000, 0, 0, binary64 (98 / 10)),
     (7000, 7000, 0, 0, binary64 (98 / 10)), (10000, 10000, 0, 0, binary64 (98 / 10)),
     (13000, 13000, 0, 0, binary64 (98 / 10)), (16000, 16000, 0, 0, binary64 (98 / 10)),
     (19000, 19000, 0, 0, binary64 (98 / 10)), (22000, 22000, 0, 0, binary64 (98 / 10)),
     (25000, 25000, 0, 0, binary64 (98 / 10)), (28000, 28000, 0, 0, binary64 (98 / 10)),
     (31000, 31000, 0, 0, binary64 (98 / 10))]"

text \<open>
  A detector of the language's format whose mean threshold is 0, with a dwell time of
  200 ms and two samples required; and four samples \<open>(0, 0, 9.8)\<close>, one every 100 ms.
\<close>

definition strictDouble :: StationaryDetector where
  "strictDouble = newStationaryDetector binary64 None (Some 0) None (Some 200) (Some 2)"

definition denseDoubleCalls :: "call list" where
  "denseDoubleCalls =
    [(1000, 1000, 0, 0, binary64 (98 / 10)), (1100, 1100, 0, 0, binary64 (98 / 10)),
     (1200, 1200, 0, 0, binary64 (98 / 10)), (1300, 1300, 0, 0, binary64 (98 / 10))]"

text \<open>Three samples of deviation 0 under exact arithmetic, at 1000, 3000 and 3100.\<close>

definition quietCalls :: "call list" where
  "quietCalls = [(1000, 1000, 0, 0, 98 / 10), (3000, 3000, 0, 0, 98 / 10),
                 (3100, 3100, 0, 0, 98 / 10)]"





section \<open>The number format\<close>

lemma floor_log2_binade:
  assumes "2 powi k \<le> \<bar>x\<bar>" and "\<bar>x\<bar> < 2 powi (k + 1)"
  shows "\<lfloor>log 2 \<bar>x :: real\<bar>\<rfloor> = k"
proof -
  have "(0 :: real) < 2 powi k" by simp
  with assms(1) have pos: "0 < \<bar>x\<bar>" by linarith
  have p: "(2 :: real) powr real_of_int j = 2 powi j" for j
    by (rule powr_real_of_int') simp_all
  from assms(1) have "real_of_int k \<le> log 2 \<bar>x\<bar>"
    using le_log_iff [of 2 "\<bar>x\<bar>" "real_of_int k"] pos by (simp add: p)
  moreover have "log 2 \<bar>x\<bar> < real_of_int (k + 1)"
  proof -
    from assms(2) have "\<bar>x\<bar> < 2 powr real_of_int (k + 1)"
      by (simp only: p)
    with pos show ?thesis
      using log_less_iff [of 2 "\<bar>x\<bar>" "real_of_int (k + 1)"] by linarith
  qed
  ultimately show ?thesis
    by (intro floor_unique) simp_all
qed

lemma binary64_binade:
  assumes "2 powi k \<le> \<bar>x\<bar>" and "\<bar>x\<bar> < 2 powi (k + 1)"
  shows "binary64 x = of_int (rne (x / 2 powi (k - 52))) * 2 powi (k - 52)"
proof -
  have "(0 :: real) < 2 powi k" by simp
  with assms(1) have "0 < \<bar>x\<bar>" by linarith
  then have "x \<noteq> 0" by simp
  then show ?thesis
    by (simp add: binary64_def Let_def floor_log2_binade [OF assms])
qed

lemma rne_of_int [simp]: "rne (of_int n) = n"
  by (simp add: rne_def)

lemma binary64_exact:
  assumes "2 powi k \<le> \<bar>x\<bar>" and "\<bar>x\<bar> < 2 powi (k + 1)"
    and "x / 2 powi (k - 52) = of_int n"
  shows "binary64 x = x"
proof -
  have nz: "(2 :: real) powi (k - 52) \<noteq> 0" by simp
  have "binary64 x = of_int n * 2 powi (k - 52)"
    unfolding binary64_binade [OF assms(1,2)] assms(3) by simp
  also from assms(3) nz have "\<dots> = x"
    by (simp add: field_simps)
  finally show ?thesis .
qed

text \<open>Numbers of the format, and the rounding of some that are not.\<close>

lemma binary64_36: "binary64 36 = 36"
  by (rule binary64_exact [where k = 5 and n = "36 * 2 ^ 47"]) simp_all

lemma binary64_6: "binary64 6 = 6"
  by (rule binary64_exact [where k = 2 and n = "6 * 2 ^ 50"]) simp_all

lemma binary64_small: "binary64 (1 / 2 ^ 48) = 1 / 2 ^ 48"
  by (rule binary64_exact [where k = "- 48" and n = "2 ^ 52"]) simp_all

lemma binary64_small2: "binary64 (1 / 2 ^ 47) = 1 / 2 ^ 47"
  by (rule binary64_exact [where k = "- 47" and n = "2 ^ 52"]) simp_all

lemma binary64_tie: "binary64 (36 + 1 / 2 ^ 48) = 36"
proof -
  have "binary64 (36 + 1 / 2 ^ 48)
      = of_int (rne ((36 + 1 / 2 ^ 48) / 2 powi (5 - 52))) * 2 powi (5 - 52)"
    by (rule binary64_binade) simp_all
  moreover have "(36 + 1 / 2 ^ 48) / 2 powi (5 - 52) = (10133099161583617 / 2 :: real)"
    by simp
  moreover have "rne (10133099161583617 / 2) = 5066549580791808"
    by (simp add: rne_def Let_def)
  ultimately show ?thesis by simp
qed

lemma binary64_above: "binary64 (1 / 2 ^ 47 + 36) = 1 / 2 ^ 47 + 36"
  by (rule binary64_exact [where k = 5 and n = "36 * 2 ^ 47 + 1"]) simp_all

lemma binary64_gravity: "binary64 (98 / 10) = 5516909543528858 / 2 ^ 49"
proof -
  have "binary64 (98 / 10) = of_int (rne ((98 / 10) / 2 powi (3 - 52))) * 2 powi (3 - 52)"
    by (rule binary64_binade) simp_all
  moreover have "(98 / 10) / 2 powi (3 - 52) = (27584547717644288 / 5 :: real)"
    by simp
  moreover have "rne (27584547717644288 / 5) = 5516909543528858"
    by (simp add: rne_def Let_def)
  ultimately show ?thesis by simp
qed

lemma binary64_threshold: "binary64 (3 / 10) = 5404319552844595 / 2 ^ 54"
proof -
  have "binary64 (3 / 10) = of_int (rne ((3 / 10) / 2 powi (- 2 - 52))) * 2 powi (- 2 - 52)"
    by (rule binary64_binade) simp_all
  moreover have "(3 / 10) / 2 powi (- 2 - 52) = (27021597764222976 / 5 :: real)"
    by simp
  moreover have "rne (27021597764222976 / 5) = 5404319552844595"
    by (simp add: rne_def Let_def)
  ultimately show ?thesis by simp
qed

lemma rne_error: "\<bar>real_of_int (rne r) - r\<bar> \<le> 1 / 2"
proof -
  have "real_of_int \<lfloor>r\<rfloor> \<le> r" "r < real_of_int \<lfloor>r\<rfloor> + 1"
    by linarith+
  then show ?thesis
    unfolding rne_def Let_def by (simp split: if_splits)
qed

lemma rne_upper_half:
  assumes "real_of_int n + 1 / 2 < r" and "r < real_of_int n + 1"
  shows "rne r = n + 1"
proof -
  from assms have "\<lfloor>r\<rfloor> = n"
    by (intro floor_unique) simp_all
  with assms show ?thesis
    by (simp add: rne_def Let_def)
qed

lemma rounds_binary64: "rounds binary64"
  unfolding rounds_def
proof
  fix x :: real
  show "\<bar>binary64 x - x\<bar> \<le> \<bar>x\<bar> / 2 ^ 53"
  proof (cases "x = 0")
    case True
    then show ?thesis by (simp add: binary64_def)
  next
    case False
    define k where "k = \<lfloor>log 2 \<bar>x\<bar>\<rfloor>"
    define u :: real where "u = 2 powi (k - 52)"
    have u: "0 < u" by (simp add: u_def)
    from False have pos: "0 < \<bar>x\<bar>" by simp
    have "real_of_int k \<le> log 2 \<bar>x\<bar>"
      unfolding k_def by linarith
    with pos have "2 powr real_of_int k \<le> \<bar>x\<bar>"
      using le_log_iff [of 2 "\<bar>x\<bar>" "real_of_int k"] by simp
    then have low: "2 powi k \<le> \<bar>x\<bar>"
      by (simp add: powr_real_of_int')
    from False have b: "binary64 x = real_of_int (rne (x / u)) * u"
      by (simp add: binary64_def Let_def k_def u_def)
    from u have "binary64 x - x = (real_of_int (rne (x / u)) - x / u) * u"
      unfolding b by (simp add: field_simps)
    then have "\<bar>binary64 x - x\<bar> = \<bar>real_of_int (rne (x / u)) - x / u\<bar> * u"
      using u by (simp add: abs_mult)
    also have "\<dots> \<le> 1 / 2 * u"
      using rne_error [of "x / u"] u by (intro mult_right_mono) simp_all
    also have "\<dots> = 2 powi k / 2 ^ 53"
      by (simp add: u_def power_int_diff)
    also from low have "\<dots> \<le> \<bar>x\<bar> / 2 ^ 53"
      by (simp add: divide_right_mono)
    finally show ?thesis .
  qed
qed

lemma rounds_exact: "rounds (\<lambda>x. x)"
  by (simp add: rounds_def)

lemma rounds_zero: "rounds rnd \<Longrightarrow> rnd 0 = 0"
proof -
  assume "rounds rnd"
  then have "\<bar>rnd 0 - 0\<bar> \<le> \<bar>0\<bar> / 2 ^ 53"
    unfolding rounds_def by (rule spec)
  then show ?thesis by simp
qed

lemma threshold_gap:
  assumes "binary64 v = v"
  shows "binary64 (3 / 10) < v \<longleftrightarrow> 3 / 10 < v"
proof
  assume "3 / 10 < v"
  then show "binary64 (3 / 10) < v"
    by (simp add: binary64_threshold)
next
  assume above: "binary64 (3 / 10) < v"
  show "3 / 10 < v"
  proof (rule ccontr)
    assume "\<not> 3 / 10 < v"
    then have le: "v \<le> 3 / 10" by simp
    from above have low: "5404319552844595 / 2 ^ 54 < v"
      by (simp add: binary64_threshold)
    from low le have "2 powi (- 2) \<le> \<bar>v\<bar>" "\<bar>v\<bar> < 2 powi (- 2 + 1)"
      by simp_all
    from binary64_binade [OF this] assms
    have "v = real_of_int (rne (v / 2 powi (- 2 - 52))) * 2 powi (- 2 - 52)"
      by simp
    then obtain n where n: "v = real_of_int n * 2 powi (- 54)"
      by simp
    from low n have "(5404319552844595 :: real) < real_of_int n"
      by simp
    then have "5404319552844595 < n" by linarith
    moreover from le n have "real_of_int n \<le> 5404319552844595 + 2 / 10"
      by simp
    then have "n \<le> 5404319552844595" by linarith
    ultimately show False by simp
  qed
qed

lemma binary64_0 [simp]: "binary64 0 = 0"
  by (simp add: binary64_def)

lemma rne_nearest:
  assumes "real_of_int n - 1 / 2 < r" and "r < real_of_int n + 1 / 2"
  shows "rne r = n"
proof (cases "real_of_int n \<le> r")
  case True
  with assms have "\<lfloor>r\<rfloor> = n"
    by (intro floor_unique) simp_all
  with assms show ?thesis
    by (simp add: rne_def Let_def)
next
  case False
  with assms have f: "\<lfloor>r\<rfloor> = n - 1"
    by (intro floor_unique) simp_all
  with assms False show ?thesis
    by (simp add: rne_def Let_def)
qed

lemma binary64_100: "binary64 100 = 100"
  by (rule binary64_exact [where k = 6 and n = "100 * 2 ^ 46"]) simp_all

lemma binary64_10: "binary64 10 = 10"
  by (rule binary64_exact [where k = 3 and n = "10 * 2 ^ 49"]) simp_all

lemma binary64_fifth: "binary64 (2 / 10) = 7205759403792794 / 2 ^ 55"
proof -
  have "binary64 (2 / 10) = of_int (rne ((2 / 10) / 2 powi (- 3 - 52))) * 2 powi (- 3 - 52)"
    by (rule binary64_binade) simp_all
  moreover have "rne ((2 / 10) / 2 powi (- 3 - 52)) = 7205759403792794"
    by (rule rne_nearest) simp_all
  ultimately show ?thesis by simp
qed

text \<open>Square roots used in the examples.\<close>

lemma sqrt_gravity: "sqrt (2401 / 25) = 49 / 5"
  by (rule real_sqrt_unique) (simp_all add: power2_eq_square)

lemma sqrt_100: "sqrt 100 = 10"
  by (rule real_sqrt_unique) simp_all

section \<open>One call of the detector\<close>

lemma addDeviationData_fields [simp]:
  "isStationary (addDeviationData d now v) = isStationary d"
  "stationaryStartTime (addDeviationData d now v) = stationaryStartTime d"
  "historyDurationMs (addDeviationData d now v) = historyDurationMs d"
  "meanThreshold (addDeviationData d now v) = meanThreshold d"
  "stdThreshold (addDeviationData d now v) = stdThreshold d"
  "stationaryDurationMs (addDeviationData d now v) = stationaryDurationMs d"
  "minSampleCount (addDeviationData d now v) = minSampleCount d"
  by (simp_all add: addDeviationData_def)

lemma addDeviationData_history:
  "deviationHistory (addDeviationData d now v) =
     filter (\<lambda>data. real_of_int (now - timestamp data) \<le> historyDurationMs d)
       (deviationHistory d @ [\<lparr>value = v, timestamp = now\<rparr>])"
  by (simp add: addDeviationData_def)

lemma addDeviationData_length:
  "length (deviationHistory (addDeviationData d now v)) \<le> Suc (length (deviationHistory d))"
proof -
  have "length (deviationHistory (addDeviationData d now v))
          \<le> length (deviationHistory d @ [\<lparr>value = v, timestamp = now\<rparr>])"
    unfolding addDeviationData_history by (rule length_filter_le)
  then show ?thesis by simp
qed

lemma inserted_fields [simp]:
  "isStationary (inserted rnd d now1 x y z) = isStationary d"
  "stationaryStartTime (inserted rnd d now1 x y z) = stationaryStartTime d"
  "historyDurationMs (inserted rnd d now1 x y z) = historyDurationMs d"
  "meanThreshold (inserted rnd d now1 x y z) = meanThreshold d"
  "stdThreshold (inserted rnd d now1 x y z) = stdThreshold d"
  "stationaryDurationMs (inserted rnd d now1 x y z) = stationaryDurationMs d"
  "minSampleCount (inserted rnd d now1 x y z) = minSampleCount d"
  by (simp_all add: inserted_def)

lemma detect_short:
  assumes "\<not> enoughSamples (inserted rnd d now1 x y z)"
  shows "detectStationary rnd d now1 now x y z = (neutral, inserted rnd d now1 x y z)"
  using assms by (simp add: detectStationary_def inserted_def enoughSamples_def Let_def)

lemma detect_noisy:
  assumes "enoughSamples (inserted rnd d now1 x y z)"
    and "\<not> currentlyQuiet rnd (inserted rnd d now1 x y z)"
  shows "detectStationary rnd d now1 now x y z =
           (\<lparr>isStationary_res = False,
             mean = calculateMean rnd (inserted rnd d now1 x y z),
             standardDeviation = calculateStandardDeviation rnd (inserted rnd d now1 x y z),
             duration = 0,
             stateChanged = isStationary d\<rparr>,
            (inserted rnd d now1 x y z)\<lparr>isStationary := False, stationaryStartTime := None\<rparr>)"
  using assms
  by (auto simp add: detectStationary_def inserted_def enoughSamples_def currentlyQuiet_def Let_def)

lemma detect_quiet:
  assumes "enoughSamples (inserted rnd d now1 x y z)"
    and "currentlyQuiet rnd (inserted rnd d now1 x y z)"
    and "start = (case stationaryStartTime d of None \<Rightarrow> now | Some t \<Rightarrow> t)"
  shows "detectStationary rnd d now1 now x y z =
           (if stationaryDurationMs d \<le> real_of_int (now - start)
            then (\<lparr>isStationary_res = True,
                   mean = calculateMean rnd (inserted rnd d now1 x y z),
                   standardDeviation = calculateStandardDeviation rnd (inserted rnd d now1 x y z),
                   duration = (if start = 0 then 0 else now - start),
                   stateChanged = (\<not> isStationary d)\<rparr>,
                  (inserted rnd d now1 x y z)\<lparr>stationaryStartTime := Some start, isStationary := True\<rparr>)
            else (\<lparr>isStationary_res = isStationary d,
                   mean = calculateMean rnd (inserted rnd d now1 x y z),
                   standardDeviation = calculateStandardDeviation rnd (inserted rnd d now1 x y z),
                   duration = (if start = 0 then 0 else now - start),
                   stateChanged = False\<rparr>,
                  (inserted rnd d now1 x y z)\<lparr>stationaryStartTime := Some start\<rparr>))"
  using assms
  by (auto simp add: detectStationary_def inserted_def enoughSamples_def currentlyQuiet_def Let_def)

section \<open>Sequences of calls\<close>

lemma detectCall_eq:
  "detectCall rnd d (now1, now, x, y, z) = detectStationary rnd d now1 now x y z"
  by (simp add: detectCall_def)

lemma length_trace [simp]: "length (trace rnd d cs) = length cs"
  by (induction cs arbitrary: d) simp_all

lemma stateAfter_Nil [simp]: "stateAfter rnd d [] = d"
  by (simp add: stateAfter_def)

lemma stateAfter_Cons [simp]:
  "stateAfter rnd d (c # cs) = stateAfter rnd (snd (detectCall rnd d c)) cs"
  by (simp add: stateAfter_def)

lemma stateAfter_snoc:
  "stateAfter rnd d (cs @ [c]) = snd (detectCall rnd (stateAfter rnd d cs) c)"
  by (simp add: stateAfter_def)

lemma trace_nth:
  "i < length cs \<Longrightarrow>
     trace rnd d cs ! i = detectCall rnd (stateAfter rnd d (take i cs)) (cs ! i)"
proof (induction cs arbitrary: d i)
  case Nil
  then show ?case by simp
next
  case (Cons c cs)
  then show ?case by (cases i) simp_all
qed

lemma stateAfter_take_Suc:
  "i < length cs \<Longrightarrow>
     stateAfter rnd d (take (Suc i) cs) = snd (detectCall rnd (stateAfter rnd d (take i cs)) (cs ! i))"
  by (simp add: take_Suc_conv_app_nth stateAfter_snoc)

text \<open>The window after a call, and the five parameters, which no call changes.\<close>

lemma detect_window:
  "deviationHistory (snd (detectStationary rnd d now1 now x y z))
     = deviationHistory (inserted rnd d now1 x y z)"
  by (simp add: detectStationary_def inserted_def Let_def split: prod.splits option.splits)

lemma detect_parameters [simp]:
  "historyDurationMs (snd (detectStationary rnd d now1 now x y z)) = historyDurationMs d"
  "meanThreshold (snd (detectStationary rnd d now1 now x y z)) = meanThreshold d"
  "stdThreshold (snd (detectStationary rnd d now1 now x y z)) = stdThreshold d"
  "stationaryDurationMs (snd (detectStationary rnd d now1 now x y z)) = stationaryDurationMs d"
  "minSampleCount (snd (detectStationary rnd d now1 now x y z)) = minSampleCount d"
  by (simp_all add: detectStationary_def Let_def split: prod.splits option.splits)

lemma detectCall_parameters [simp]:
  "historyDurationMs (snd (detectCall rnd d c)) = historyDurationMs d"
  "meanThreshold (snd (detectCall rnd d c)) = meanThreshold d"
  "stdThreshold (snd (detectCall rnd d c)) = stdThreshold d"
  "stationaryDurationMs (snd (detectCall rnd d c)) = stationaryDurationMs d"
  "minSampleCount (snd (detectCall rnd d c)) = minSampleCount d"
  by (simp_all add: detectCall_def split: prod.splits)

lemma stateAfter_parameters [simp]:
  "historyDurationMs (stateAfter rnd d cs) = historyDurationMs d"
  "meanThreshold (stateAfter rnd d cs) = meanThreshold d"
  "stdThreshold (stateAfter rnd d cs) = stdThreshold d"
  "stationaryDurationMs (stateAfter rnd d cs) = stationaryDurationMs d"
  "minSampleCount (stateAfter rnd d cs) = minSampleCount d"
  by (induction cs arbitrary: d) simp_all

lemma detect_window_length:
  "length (deviationHistory (snd (detectStationary rnd d now1 now x y z)))
     \<le> Suc (length (deviationHistory d))"
  unfolding detect_window inserted_def by (rule addDeviationData_length)

lemma detectCall_window_length:
  "length (deviationHistory (snd (detectCall rnd d c))) \<le> Suc (length (deviationHistory d))"
  by (cases c) (simp add: detectCall_def detect_window_length)

lemma stateAfter_window_length:
  "length (deviationHistory (stateAfter rnd d cs)) \<le> length (deviationHistory d) + length cs"
proof (induction cs arbitrary: d)
  case Nil
  show ?case by simp
next
  case (Cons c cs)
  have "length (deviationHistory (stateAfter rnd (snd (detectCall rnd d c)) cs))
          \<le> length (deviationHistory (snd (detectCall rnd d c))) + length cs"
    by (rule Cons.IH)
  also have "\<dots> \<le> Suc (length (deviationHistory d)) + length cs"
    using detectCall_window_length [of rnd d c] by simp
  finally show ?case by simp
qed

lemma detect_few_samples:
  assumes "real (Suc (length (deviationHistory d))) < minSampleCount d"
  shows "fst (detectStationary rnd d now1 now x y z) = neutral"
proof -
  have "real (length (deviationHistory (inserted rnd d now1 x y z)))
          \<le> real (Suc (length (deviationHistory d)))"
    unfolding inserted_def using addDeviationData_length [of d now1] by (simp del: of_nat_Suc)
  with assms have "\<not> enoughSamples (inserted rnd d now1 x y z)"
    by (simp add: enoughSamples_def)
  then show ?thesis by (simp add: detect_short)
qed

lemma trace_few_samples:
  assumes "i < length cs"
    and "real (length (deviationHistory d) + Suc i) < minSampleCount d"
  shows "fst (trace rnd d cs ! i) = neutral"
proof -
  let ?d = "stateAfter rnd d (take i cs)"
  have "length (deviationHistory ?d) \<le> length (deviationHistory d) + i"
    using stateAfter_window_length [of rnd d "take i cs"] assms(1) by simp
  then have "real (Suc (length (deviationHistory ?d))) \<le> real (length (deviationHistory d) + Suc i)"
    by simp
  with assms(2) have "real (Suc (length (deviationHistory ?d))) < minSampleCount ?d"
    by simp
  then have "fst (detectCall rnd ?d (cs ! i)) = neutral"
    by (cases "cs ! i") (simp add: detectCall_def detect_few_samples del: of_nat_Suc)
  then show ?thesis using assms(1) by (simp add: trace_nth)
qed

lemma deviation_exact_origin: "deviation (\<lambda>x. x) 0 0 0 = 98 / 10"
  by (simp add: deviation_def magnitude_def)

lemma deviation_exact_gravity: "deviation (\<lambda>x. x) 0 0 (98 / 10) = 0"
  by (simp add: deviation_def magnitude_def sqrt_gravity)

text \<open>The stationary example is the detector the seven settling samples leave.\<close>

lemma stationaryExample_reached:
  "stateAfter (\<lambda>x. x) (newStationaryDetector (\<lambda>x. x) None None None None (Some 2)) settlingCalls
     = stationaryExample"
  unfolding settlingCalls_def stationaryExample_def
  by (simp add: newStationaryDetector_def nullish_def detectCall_eq detectStationary_def Let_def
      addDeviationData_def calculateMean_def calculateStandardDeviation_def
      deviation_exact_gravity [simplified])

section \<open>Too few samples\<close>

text \<open>
  Claim C4. Call number \<open>i + 1\<close> after construction, or after \<open>reset\<close>, returns the
  neutral result (not stationary, mean 0, standard deviation 0, duration 0, no state
  change) whenever \<open>i + 1 < minSampleCount\<close>: these are the first \<open>minSampleCount - 1\<close>
  calls. In any state, a call that finds fewer than \<open>minSampleCount\<close> samples in the
  window after insertion and pruning returns the neutral result.
\<close>

theorem insufficient_data_neutral:
  "(i < length cs \<and> real (Suc i) < minSampleCount (newStationaryDetector rnd o1 o2 o3 o4 o5)
      \<longrightarrow> fst (trace rnd (newStationaryDetector rnd o1 o2 o3 o4 o5) cs ! i) = neutral) \<and>
   (i < length cs \<and> real (Suc i) < minSampleCount d
      \<longrightarrow> fst (trace rnd (reset d) cs ! i) = neutral) \<and>
   (\<not> enoughSamples (inserted rnd d now1 x y z)
      \<longrightarrow> fst (detectStationary rnd d now1 now x y z) = neutral)"
proof (intro conjI impI)
  let ?n = "newStationaryDetector rnd o1 o2 o3 o4 o5"
  assume "i < length cs \<and> real (Suc i) < minSampleCount ?n"
  moreover have "deviationHistory ?n = []"
    by (simp add: newStationaryDetector_def)
  ultimately show "fst (trace rnd ?n cs ! i) = neutral"
    by (intro trace_few_samples) simp_all
next
  assume "i < length cs \<and> real (Suc i) < minSampleCount d"
  then show "fst (trace rnd (reset d) cs ! i) = neutral"
    by (intro trace_few_samples) (simp_all add: reset_def)
next
  assume "\<not> enoughSamples (inserted rnd d now1 x y z)"
  then show "fst (detectStationary rnd d now1 now x y z) = neutral"
    by (simp add: detect_short)
qed

theorem insufficient_data_neutral_witness:
  "fst (trace (\<lambda>x. x) (newStationaryDetector (\<lambda>x. x) None None None None None)
          [(100, 100, 0, 0, 0), (200, 200, 0, 0, 0)] ! 1) = neutral \<and>
   fst (trace (\<lambda>x. x) (reset stationaryExample) [(4000, 4000, 0, 0, 0)] ! 0) = neutral \<and>
   \<not> enoughSamples (inserted (\<lambda>x. x) stationaryExample 9000 0 0 0) \<and>
   fst (detectStationary (\<lambda>x. x) stationaryExample 9000 9000 0 0 0) = neutral"
proof -
  have a: "\<not> enoughSamples (inserted (\<lambda>x. x) stationaryExample 9000 0 0 0)"
    by (simp add: enoughSamples_def inserted_def addDeviationData_def stationaryExample_def
        deviation_exact_origin)
  have b: "minSampleCount (newStationaryDetector (\<lambda>x. x) None None None None None) = 10"
    by (simp add: newStationaryDetector_def nullish_def)
  have c: "minSampleCount stationaryExample = 2"
    by (simp add: stationaryExample_def)
  show ?thesis
    using a
      insufficient_data_neutral [of 1 "[(100, 100, 0, 0, 0), (200, 200, 0, 0, 0)]" "\<lambda>x. x"
        None None None None None stationaryExample 9000 0 0 0 9000]
      insufficient_data_neutral [of 0 "[(4000, 4000, 0, 0, 0)]" "\<lambda>x. x"
        None None None None None stationaryExample 9000 0 0 0 9000]
    by (simp add: b c)
qed

section \<open>Reset\<close>

text \<open>
  Claim C6. \<open>reset\<close> is total. After it the window is empty, \<open>getIsStationary\<close> is
  false and the start of the quiet streak is cleared: the detector is the one the
  constructor builds for the same five parameters. Every call of a sequence of fewer
  than \<open>minSampleCount\<close> calls after it returns the neutral result.
\<close>

theorem reset_returns_to_initial:
  "deviationHistory (reset d) = [] \<and> getIsStationary (reset d) = False \<and>
   stationaryStartTime (reset d) = None \<and>
   reset d = newStationaryDetector rnd (Some (historyDurationMs d)) (Some (meanThreshold d))
               (Some (stdThreshold d)) (Some (stationaryDurationMs d)) (Some (minSampleCount d)) \<and>
   (\<forall>cs i. i < length cs \<and> real (length cs) < minSampleCount d
       \<longrightarrow> fst (trace rnd (reset d) cs ! i) = neutral)"
proof (intro conjI allI impI)
  fix cs :: "call list" and i
  assume h: "i < length cs \<and> real (length cs) < minSampleCount d"
  then have "real (Suc i) \<le> real (length cs)" by simp
  with h have "real (length (deviationHistory (reset d)) + Suc i) < minSampleCount (reset d)"
    by (simp add: reset_def del: of_nat_Suc)
  with h show "fst (trace rnd (reset d) cs ! i) = neutral"
    by (intro trace_few_samples) simp_all
qed (simp_all add: reset_def getIsStationary_def newStationaryDetector_def nullish_def)

theorem reset_returns_to_initial_witness:
  "deviationHistory (reset stationaryExample) = [] \<and>
   getIsStationary (reset stationaryExample) = False \<and>
   stationaryStartTime (reset stationaryExample) = None \<and>
   fst (trace (\<lambda>x. x) (reset stationaryExample) [(4000, 4000, 0, 0, 0)] ! 0) = neutral"
proof -
  note r = reset_returns_to_initial [of stationaryExample "\<lambda>x. x"]
  have c: "minSampleCount stationaryExample = 2"
    by (simp add: stationaryExample_def)
  from r have "\<forall>cs i. i < length cs \<and> real (length cs) < minSampleCount stationaryExample
      \<longrightarrow> fst (trace (\<lambda>x. x) (reset stationaryExample) cs ! i) = neutral"
    by blast
  then have "0 < length [(4000::int, 4000::int, 0::real, 0::real, 0::real)] \<and>
      real (length [(4000::int, 4000::int, 0::real, 0::real, 0::real)]) < minSampleCount stationaryExample
      \<longrightarrow> fst (trace (\<lambda>x. x) (reset stationaryExample) [(4000, 4000, 0, 0, 0)] ! 0) = neutral"
    by blast
  then have "fst (trace (\<lambda>x. x) (reset stationaryExample) [(4000, 4000, 0, 0, 0)] ! 0) = neutral"
    by (simp add: c)
  with r show ?thesis by blast
qed

lemma detect_cases:
  obtains
    (short) "\<not> enoughSamples (inserted rnd d now1 x y z)"
  | (noisy) "enoughSamples (inserted rnd d now1 x y z)"
      "\<not> currentlyQuiet rnd (inserted rnd d now1 x y z)"
  | (quiet) "enoughSamples (inserted rnd d now1 x y z)"
      "currentlyQuiet rnd (inserted rnd d now1 x y z)"
  by blast

section \<open>Leaving the stationary state\<close>

text \<open>
  Claim C3. In a stationary detector, a call whose window holds at least
  \<open>minSampleCount\<close> samples and has a mean of at least \<open>meanThreshold\<close> or a standard
  deviation of at least \<open>stdThreshold\<close> returns not stationary with a state change on
  that same call, whatever the clock says, clears the start of the quiet streak and
  returns the duration 0.
\<close>

theorem moving_transition_immediate:
  assumes "isStationary d"
    and "enoughSamples (inserted rnd d now1 x y z)"
    and "meanThreshold d \<le> calculateMean rnd (inserted rnd d now1 x y z) \<or>
         stdThreshold d \<le> calculateStandardDeviation rnd (inserted rnd d now1 x y z)"
    and "detectStationary rnd d now1 now x y z = (r, d')"
  shows "isStationary_res r = False \<and> stateChanged r = True \<and> duration r = 0 \<and>
         getIsStationary d' = False \<and> stationaryStartTime d' = None"
proof -
  from assms(3) have "\<not> currentlyQuiet rnd (inserted rnd d now1 x y z)"
    by (auto simp add: currentlyQuiet_def)
  from detect_noisy [OF assms(2) this, of now] assms(1,4) show ?thesis
    by (auto simp add: getIsStationary_def)
qed

lemma example_noisy_window:
  "deviationHistory (inserted (\<lambda>x. x) stationaryExample 3600 0 0 0) =
     [\<lparr>value = 0, timestamp = 2000\<rparr>, \<lparr>value = 0, timestamp = 2500\<rparr>,
      \<lparr>value = 0, timestamp = 3000\<rparr>, \<lparr>value = 0, timestamp = 3500\<rparr>,
      \<lparr>value = 98 / 10, timestamp = 3600\<rparr>]"
  by (simp add: inserted_def addDeviationData_def stationaryExample_def deviation_exact_origin)

lemma example_noisy_mean:
  "calculateMean (\<lambda>x. x) (inserted (\<lambda>x. x) stationaryExample 3600 0 0 0) = 49 / 25"
  by (simp add: calculateMean_def example_noisy_window)

lemma example_noisy_enough:
  "enoughSamples (inserted (\<lambda>x. x) stationaryExample 3600 0 0 0)"
  by (simp add: enoughSamples_def example_noisy_window) (simp add: stationaryExample_def)

lemma example_parameters:
  "meanThreshold stationaryExample = 3 / 10" "stdThreshold stationaryExample = 2 / 10"
  "minSampleCount stationaryExample = 2" "historyDurationMs stationaryExample = 2000"
  "stationaryDurationMs stationaryExample = 2000" "isStationary stationaryExample"
  "stationaryStartTime stationaryExample = Some 1000"
  by (simp_all add: stationaryExample_def)

theorem moving_transition_immediate_witness:
  "isStationary stationaryExample \<and>
   enoughSamples (inserted (\<lambda>x. x) stationaryExample 3600 0 0 0) \<and>
   meanThreshold stationaryExample
     \<le> calculateMean (\<lambda>x. x) (inserted (\<lambda>x. x) stationaryExample 3600 0 0 0) \<and>
   isStationary_res (fst (detectStationary (\<lambda>x. x) stationaryExample 3600 3601 0 0 0)) = False \<and>
   stateChanged (fst (detectStationary (\<lambda>x. x) stationaryExample 3600 3601 0 0 0)) = True \<and>
   duration (fst (detectStationary (\<lambda>x. x) stationaryExample 3600 3601 0 0 0)) = 0 \<and>
   getIsStationary (snd (detectStationary (\<lambda>x. x) stationaryExample 3600 3601 0 0 0)) = False"
proof -
  have a: "isStationary stationaryExample"
    by (simp add: example_parameters)
  have b: "meanThreshold stationaryExample
      \<le> calculateMean (\<lambda>x. x) (inserted (\<lambda>x. x) stationaryExample 3600 0 0 0)"
    by (simp add: example_noisy_mean example_parameters)
  from b have c: "meanThreshold stationaryExample
      \<le> calculateMean (\<lambda>x. x) (inserted (\<lambda>x. x) stationaryExample 3600 0 0 0) \<or>
    stdThreshold stationaryExample
      \<le> calculateStandardDeviation (\<lambda>x. x) (inserted (\<lambda>x. x) stationaryExample 3600 0 0 0)"
    by (rule disjI1)
  show ?thesis
    using moving_transition_immediate [OF a example_noisy_enough c prod.collapse [symmetric]]
      a b example_noisy_enough
    by blast
qed

section \<open>A short window leaves the state alone\<close>

text \<open>
  Claim C9. A call that finds fewer than \<open>minSampleCount\<close> samples in the window after
  insertion and pruning returns the neutral result and leaves the flag \<open>isStationary\<close>
  and the start of the quiet streak as they were. So a stationary detector whose window
  has shrunk returns not stationary and no state change, and \<open>getIsStationary\<close> is still
  true after the call. A call that takes a stationary detector out of the stationary
  state reports the state change and has a full window, and so has every call that
  reports a state change.
\<close>

theorem short_window_keeps_state:
  assumes "detectStationary rnd d now1 now x y z = (r, d')"
  shows "(\<not> enoughSamples (inserted rnd d now1 x y z) \<longrightarrow>
            r = neutral \<and> isStationary d' = isStationary d \<and>
            stationaryStartTime d' = stationaryStartTime d) \<and>
         (isStationary d \<and> \<not> enoughSamples (inserted rnd d now1 x y z) \<longrightarrow>
            isStationary_res r = False \<and> stateChanged r = False \<and> getIsStationary d' = True) \<and>
         (isStationary d \<and> \<not> getIsStationary d' \<longrightarrow>
            stateChanged r = True \<and> isStationary_res r = False \<and>
            enoughSamples (inserted rnd d now1 x y z)) \<and>
         (stateChanged r \<longrightarrow> enoughSamples (inserted rnd d now1 x y z))"
proof (cases rule: detect_cases [of rnd d now1 x y z])
  case short
  from detect_short [OF short, of now] assms show ?thesis
    using short by (auto simp add: neutral_def getIsStationary_def)
next
  case noisy
  from detect_noisy [OF noisy, of now] assms show ?thesis
    using noisy by (auto simp add: getIsStationary_def)
next
  case quiet
  from detect_quiet [OF quiet refl, of now] assms show ?thesis
    using quiet by (auto simp add: getIsStationary_def split: if_splits)
qed

lemma example_short_window:
  "\<not> enoughSamples (inserted (\<lambda>x. x) stationaryExample 9000 0 0 0)"
  by (simp add: enoughSamples_def inserted_def addDeviationData_def stationaryExample_def
      deviation_exact_origin)

lemma example_noisy_call:
  "detectStationary (\<lambda>x. x) stationaryExample 3600 3601 0 0 0 =
     (\<lparr>isStationary_res = False,
        mean = calculateMean (\<lambda>x. x) (inserted (\<lambda>x. x) stationaryExample 3600 0 0 0),
        standardDeviation =
          calculateStandardDeviation (\<lambda>x. x) (inserted (\<lambda>x. x) stationaryExample 3600 0 0 0),
        duration = 0, stateChanged = True\<rparr>,
      (inserted (\<lambda>x. x) stationaryExample 3600 0 0 0)
        \<lparr>isStationary := False, stationaryStartTime := None\<rparr>)"
proof -
  have "\<not> currentlyQuiet (\<lambda>x. x) (inserted (\<lambda>x. x) stationaryExample 3600 0 0 0)"
    by (simp add: currentlyQuiet_def example_noisy_mean example_parameters)
  from detect_noisy [OF example_noisy_enough this, of 3601] show ?thesis
    by (simp add: example_parameters)
qed

theorem short_window_keeps_state_witness:
  "isStationary stationaryExample \<and>
   \<not> enoughSamples (inserted (\<lambda>x. x) stationaryExample 9000 0 0 0) \<and>
   fst (detectStationary (\<lambda>x. x) stationaryExample 9000 9001 0 0 0) = neutral \<and>
   getIsStationary (snd (detectStationary (\<lambda>x. x) stationaryExample 9000 9001 0 0 0)) = True \<and>
   stationaryStartTime (snd (detectStationary (\<lambda>x. x) stationaryExample 9000 9001 0 0 0))
     = Some 1000 \<and>
   \<not> getIsStationary (snd (detectStationary (\<lambda>x. x) stationaryExample 3600 3601 0 0 0)) \<and>
   stateChanged (fst (detectStationary (\<lambda>x. x) stationaryExample 3600 3601 0 0 0)) = True \<and>
   enoughSamples (inserted (\<lambda>x. x) stationaryExample 3600 0 0 0)"
proof -
  have a: "isStationary stationaryExample"
    by (simp add: example_parameters)
  have b: "\<not> getIsStationary (snd (detectStationary (\<lambda>x. x) stationaryExample 3600 3601 0 0 0))"
    by (simp add: example_noisy_call getIsStationary_def)
  have "fst (detectStationary (\<lambda>x. x) stationaryExample 9000 9001 0 0 0) = neutral \<and>
   getIsStationary (snd (detectStationary (\<lambda>x. x) stationaryExample 9000 9001 0 0 0)) = True \<and>
   stationaryStartTime (snd (detectStationary (\<lambda>x. x) stationaryExample 9000 9001 0 0 0))
     = Some 1000"
    using short_window_keeps_state [where rnd = "\<lambda>x. x" and d = stationaryExample
        and ?now1.0 = 9000 and now = 9001 and x = 0 and y = 0 and z = 0,
        OF prod.collapse [symmetric]]
      a example_short_window
    by (simp add: example_parameters)
  moreover have "stateChanged (fst (detectStationary (\<lambda>x. x) stationaryExample 3600 3601 0 0 0)) = True \<and>
   enoughSamples (inserted (\<lambda>x. x) stationaryExample 3600 0 0 0)"
    using short_window_keeps_state [where rnd = "\<lambda>x. x" and d = stationaryExample
        and ?now1.0 = 3600 and now = 3601 and x = 0 and y = 0 and z = 0,
        OF prod.collapse [symmetric]]
      a b
    by blast
  ultimately show ?thesis
    using a b example_short_window by blast
qed

lemma deviation_exact_ten: "deviation (\<lambda>x. x) 0 0 10 = 2 / 10"
  by (simp add: deviation_def magnitude_def sqrt_100)

lemma sensitive_parameters:
  "meanThreshold sensitiveExample = 3 / 10" "stdThreshold sensitiveExample = 2 / 10"
  "minSampleCount sensitiveExample = 1" "historyDurationMs sensitiveExample = 2000"
  "stationaryDurationMs sensitiveExample = 2000" "\<not> isStationary sensitiveExample"
  "stationaryStartTime sensitiveExample = None" "deviationHistory sensitiveExample = []"
  by (simp_all add: sensitiveExample_def newStationaryDetector_def nullish_def)

lemma sensitive_window:
  "deviationHistory (inserted (\<lambda>x. x) sensitiveExample 5000 0 0 10)
     = [\<lparr>value = 2 / 10, timestamp = 5000\<rparr>]"
  by (simp add: inserted_def addDeviationData_def sensitive_parameters deviation_exact_ten)

lemma sensitive_enough: "enoughSamples (inserted (\<lambda>x. x) sensitiveExample 5000 0 0 10)"
  by (simp add: enoughSamples_def sensitive_window sensitive_parameters)

lemma sensitive_quiet: "currentlyQuiet (\<lambda>x. x) (inserted (\<lambda>x. x) sensitiveExample 5000 0 0 10)"
  by (simp add: currentlyQuiet_def calculateMean_def calculateStandardDeviation_def
      sensitive_window sensitive_parameters)

lemma sensitive_first_call:
  "detectStationary (\<lambda>x. x) sensitiveExample 5000 5000 0 0 10 =
     (\<lparr>isStationary_res = False, mean = 2 / 10, standardDeviation = 0, duration = 0,
        stateChanged = False\<rparr>,
      (inserted (\<lambda>x. x) sensitiveExample 5000 0 0 10)\<lparr>stationaryStartTime := Some 5000\<rparr>)"
  using detect_quiet [OF sensitive_enough sensitive_quiet refl, of 5000]
  by (simp add: sensitive_parameters calculateMean_def calculateStandardDeviation_def
      sensitive_window)

section \<open>The duration\<close>

lemma magnitude_binary64_ten: "magnitude binary64 0 0 10 = 10"
proof -
  have sq: "(10 :: real) * 10 = 100" by simp
  show ?thesis
    unfolding magnitude_def sq
    by (simp only: mult_zero_left binary64_0 add_0 binary64_100 sqrt_100 binary64_10)
qed

lemma binary64_ten_deviation:
  "binary64 (56294995342131 / 281474976710656) = 56294995342131 / 281474976710656"
  by (rule binary64_exact [where k = "- 3" and n = 7205759403792768]) simp_all

lemma deviation_binary64_ten:
  "deviation binary64 0 0 10 = 56294995342131 / 281474976710656"
proof -
  have e: "(10 :: real) - 5516909543528858 / 2 ^ 49 = 56294995342131 / 281474976710656"
    by simp
  show ?thesis
    unfolding deviation_def magnitude_binary64_ten binary64_gravity e binary64_ten_deviation
    by simp
qed

lemma sensitiveDouble_record:
  "sensitiveDouble =
     \<lparr>deviationHistory = [], isStationary = False, stationaryStartTime = None,
      historyDurationMs = 2000, meanThreshold = 5404319552844595 / 2 ^ 54,
      stdThreshold = 7205759403792794 / 2 ^ 55, stationaryDurationMs = 2000,
      minSampleCount = 1\<rparr>"
  by (simp add: sensitiveDouble_def newStationaryDetector_def nullish_def binary64_threshold
      binary64_fifth [simplified])

lemma sensitiveDouble_window:
  "deviationHistory (inserted binary64 sensitiveDouble 5000 0 0 10)
     = [\<lparr>value = 56294995342131 / 281474976710656, timestamp = 5000\<rparr>]"
  by (simp add: inserted_def addDeviationData_def sensitiveDouble_record deviation_binary64_ten)

lemma sensitiveDouble_enough: "enoughSamples (inserted binary64 sensitiveDouble 5000 0 0 10)"
  by (simp add: enoughSamples_def sensitiveDouble_window) (simp add: sensitiveDouble_record)

lemma sensitiveDouble_mean:
  "calculateMean binary64 (inserted binary64 sensitiveDouble 5000 0 0 10)
     = 56294995342131 / 281474976710656"
  unfolding calculateMean_def sensitiveDouble_window
  by (simp add: binary64_ten_deviation)

lemma sensitiveDouble_standardDeviation:
  "calculateStandardDeviation binary64 (inserted binary64 sensitiveDouble 5000 0 0 10) = 0"
  unfolding calculateStandardDeviation_def sensitiveDouble_mean
  unfolding sensitiveDouble_window
  by simp

lemma sensitiveDouble_quiet:
  "currentlyQuiet binary64 (inserted binary64 sensitiveDouble 5000 0 0 10)"
  unfolding currentlyQuiet_def sensitiveDouble_mean sensitiveDouble_standardDeviation
  by (simp add: sensitiveDouble_record)

text \<open>
  Claim C7 as stated fails, in the language's arithmetic, on the call that begins a
  quiet streak: the window is full and quiet, the dwell time has not elapsed, the result
  is not stationary, and the duration is 0, not positive.
\<close>

theorem dwell_duration_zero_counterexample:
  "enoughSamples (inserted binary64 sensitiveDouble 5000 0 0 10) \<and>
   currentlyQuiet binary64 (inserted binary64 sensitiveDouble 5000 0 0 10) \<and>
   stationaryStartTime (snd (detectStationary binary64 sensitiveDouble 5000 5000 0 0 10))
     = Some 5000 \<and>
   real_of_int (5000 - 5000) < stationaryDurationMs sensitiveDouble \<and>
   isStationary_res (fst (detectStationary binary64 sensitiveDouble 5000 5000 0 0 10)) = False \<and>
   \<not> 0 < duration (fst (detectStationary binary64 sensitiveDouble 5000 5000 0 0 10))"
proof -
  have p: "stationaryStartTime sensitiveDouble = None" "\<not> isStationary sensitiveDouble"
    "stationaryDurationMs sensitiveDouble = 2000"
    by (simp_all add: sensitiveDouble_record)
  from detect_quiet [OF sensitiveDouble_enough sensitiveDouble_quiet refl, of 5000]
  show ?thesis
    by (simp add: sensitiveDouble_enough sensitiveDouble_quiet p)
qed

text \<open>
  Claim C7, amended. For a call with at least \<open>minSampleCount\<close> samples in the window:
  the duration is 0 when the start of the quiet streak is cleared after the call, and
  \<open>now\<close> minus that start when it is set to a time other than 0. A quiet window sets
  the start to the one already running, or to \<open>now\<close> if none runs; any other window
  clears it. During the dwell period (quiet window, detector not yet stationary, less
  than \<open>stationaryDurationMs\<close> since the start) the result is not stationary and the
  duration is the time since the start of the quiet streak, positive exactly when the
  clock has moved on since then.
\<close>

theorem duration_since_quiet_streak:
  assumes "detectStationary rnd d now1 now x y z = (r, d')"
    and "enoughSamples (inserted rnd d now1 x y z)"
  shows "(stationaryStartTime d' = None \<longrightarrow> duration r = 0) \<and>
         (\<forall>t. stationaryStartTime d' = Some t \<and> t \<noteq> 0 \<longrightarrow> duration r = now - t) \<and>
         (currentlyQuiet rnd (inserted rnd d now1 x y z) \<longrightarrow>
            stationaryStartTime d' = Some (nullish (stationaryStartTime d) now)) \<and>
         (\<not> currentlyQuiet rnd (inserted rnd d now1 x y z) \<longrightarrow> stationaryStartTime d' = None) \<and>
         (\<forall>t. currentlyQuiet rnd (inserted rnd d now1 x y z) \<and> \<not> isStationary d \<and>
              stationaryStartTime d' = Some t \<and> t \<noteq> 0 \<and>
              real_of_int (now - t) < stationaryDurationMs d \<longrightarrow>
            isStationary_res r = False \<and> duration r = now - t \<and> (0 < duration r \<longleftrightarrow> t < now))"
proof (cases "currentlyQuiet rnd (inserted rnd d now1 x y z)")
  case True
  from detect_quiet [OF assms(2) True refl, of now] assms(1) show ?thesis
    using True by (auto simp add: nullish_def split: if_splits option.splits)
next
  case False
  from detect_noisy [OF assms(2) False, of now] assms(1) show ?thesis
    using False by auto
qed

lemma dwell_fields:
  "deviationHistory dwellExample = [\<lparr>value = 2 / 10, timestamp = 5000\<rparr>]"
  "stationaryStartTime dwellExample = Some 5000" "\<not> isStationary dwellExample"
  "meanThreshold dwellExample = 3 / 10" "stdThreshold dwellExample = 2 / 10"
  "minSampleCount dwellExample = 1" "historyDurationMs dwellExample = 2000"
  "stationaryDurationMs dwellExample = 2000"
  by (simp_all add: dwellExample_def sensitive_first_call sensitive_window sensitive_parameters)

lemma dwell_window:
  "deviationHistory (inserted (\<lambda>x. x) dwellExample 5100 0 0 10)
     = [\<lparr>value = 2 / 10, timestamp = 5000\<rparr>, \<lparr>value = 2 / 10, timestamp = 5100\<rparr>]"
  by (simp add: inserted_def addDeviationData_def dwell_fields deviation_exact_ten)

lemma dwell_enough: "enoughSamples (inserted (\<lambda>x. x) dwellExample 5100 0 0 10)"
  by (simp add: enoughSamples_def dwell_window dwell_fields)

lemma dwell_quiet: "currentlyQuiet (\<lambda>x. x) (inserted (\<lambda>x. x) dwellExample 5100 0 0 10)"
  by (simp add: currentlyQuiet_def calculateMean_def calculateStandardDeviation_def
      dwell_window dwell_fields)

lemma dwell_noise_window:
  "deviationHistory (inserted (\<lambda>x. x) dwellExample 5100 0 0 0)
     = [\<lparr>value = 2 / 10, timestamp = 5000\<rparr>, \<lparr>value = 98 / 10, timestamp = 5100\<rparr>]"
  by (simp add: inserted_def addDeviationData_def dwell_fields deviation_exact_origin)

lemma dwell_noise_enough: "enoughSamples (inserted (\<lambda>x. x) dwellExample 5100 0 0 0)"
  by (simp add: enoughSamples_def dwell_noise_window dwell_fields)

lemma dwell_noise_not_quiet:
  "\<not> currentlyQuiet (\<lambda>x. x) (inserted (\<lambda>x. x) dwellExample 5100 0 0 0)"
  by (simp add: currentlyQuiet_def calculateMean_def dwell_noise_window dwell_fields)

theorem duration_since_quiet_streak_witness:
  "enoughSamples (inserted (\<lambda>x. x) dwellExample 5100 0 0 10) \<and>
   currentlyQuiet (\<lambda>x. x) (inserted (\<lambda>x. x) dwellExample 5100 0 0 10) \<and>
   \<not> isStationary dwellExample \<and>
   stationaryStartTime (snd (detectStationary (\<lambda>x. x) dwellExample 5100 5100 0 0 10)) = Some 5000 \<and>
   real_of_int (5100 - 5000) < stationaryDurationMs dwellExample \<and>
   isStationary_res (fst (detectStationary (\<lambda>x. x) dwellExample 5100 5100 0 0 10)) = False \<and>
   duration (fst (detectStationary (\<lambda>x. x) dwellExample 5100 5100 0 0 10)) = 5100 - 5000 \<and>
   enoughSamples (inserted (\<lambda>x. x) dwellExample 5100 0 0 0) \<and>
   \<not> currentlyQuiet (\<lambda>x. x) (inserted (\<lambda>x. x) dwellExample 5100 0 0 0) \<and>
   stationaryStartTime (snd (detectStationary (\<lambda>x. x) dwellExample 5100 5100 0 0 0)) = None \<and>
   duration (fst (detectStationary (\<lambda>x. x) dwellExample 5100 5100 0 0 0)) = 0"
proof -
  note t = duration_since_quiet_streak [where rnd = "\<lambda>x. x" and d = dwellExample
      and ?now1.0 = 5100 and now = 5100 and x = 0 and y = 0 and z = 10,
      OF prod.collapse [symmetric] dwell_enough]
  from t dwell_quiet
  have s: "stationaryStartTime (snd (detectStationary (\<lambda>x. x) dwellExample 5100 5100 0 0 10))
      = Some 5000"
    by (simp add: dwell_fields nullish_def)
  have n: "\<not> isStationary dwellExample" "real_of_int (5100 - 5000) < stationaryDurationMs dwellExample"
    by (simp_all add: dwell_fields)
  from t have "\<forall>t. currentlyQuiet (\<lambda>x. x) (inserted (\<lambda>x. x) dwellExample 5100 0 0 10) \<and>
        \<not> isStationary dwellExample \<and>
        stationaryStartTime (snd (detectStationary (\<lambda>x. x) dwellExample 5100 5100 0 0 10)) = Some t \<and>
        t \<noteq> 0 \<and> real_of_int (5100 - t) < stationaryDurationMs dwellExample \<longrightarrow>
        isStationary_res (fst (detectStationary (\<lambda>x. x) dwellExample 5100 5100 0 0 10)) = False \<and>
        duration (fst (detectStationary (\<lambda>x. x) dwellExample 5100 5100 0 0 10)) = 5100 - t \<and>
        (0 < duration (fst (detectStationary (\<lambda>x. x) dwellExample 5100 5100 0 0 10)) \<longleftrightarrow> t < 5100)"
    by blast
  from this [rule_format, of 5000] dwell_quiet n s
  have q: "isStationary_res (fst (detectStationary (\<lambda>x. x) dwellExample 5100 5100 0 0 10)) = False \<and>
        duration (fst (detectStationary (\<lambda>x. x) dwellExample 5100 5100 0 0 10)) = 5100 - 5000"
    by simp
  note u = duration_since_quiet_streak [where rnd = "\<lambda>x. x" and d = dwellExample
      and ?now1.0 = 5100 and now = 5100 and x = 0 and y = 0 and z = 0,
      OF prod.collapse [symmetric] dwell_noise_enough]
  from u dwell_noise_not_quiet
  have v: "stationaryStartTime (snd (detectStationary (\<lambda>x. x) dwellExample 5100 5100 0 0 0)) = None"
    by blast
  with u have w: "duration (fst (detectStationary (\<lambda>x. x) dwellExample 5100 5100 0 0 0)) = 0"
    by blast
  from dwell_enough dwell_quiet n s q dwell_noise_enough dwell_noise_not_quiet v w
  show ?thesis by blast
qed

text \<open>
  The case the amended claim leaves out: line 149 tests the start time for truth, so a
  streak that began at clock 0 has the duration 0 at every later call.
\<close>

lemma duration_epoch_start:
  assumes "enoughSamples (inserted rnd d now1 x y z)"
    and "currentlyQuiet rnd (inserted rnd d now1 x y z)"
    and "stationaryStartTime d = Some 0"
  shows "duration (fst (detectStationary rnd d now1 now x y z)) = 0"
    and "stationaryStartTime (snd (detectStationary rnd d now1 now x y z)) = Some 0"
  using detect_quiet [OF assms(1,2) refl, of now] assms(3) by simp_all

section \<open>The window\<close>

lemma sorted_timestamps_filter:
  "sorted (map timestamp xs) \<Longrightarrow> sorted (map timestamp (filter P xs))"
  by (induction xs) auto

lemma addDeviationData_retained:
  "s \<in> set (deviationHistory (addDeviationData d now v)) \<Longrightarrow>
     real_of_int (now - timestamp s) \<le> historyDurationMs d"
  unfolding addDeviationData_history set_filter by blast

lemma addDeviationData_invariant:
  assumes "windowInvariant d t" and "t \<le> now"
  shows "windowInvariant (addDeviationData d now v) now"
proof -
  let ?h = "deviationHistory d @ [\<lparr>value = v, timestamp = now\<rparr>]"
  from assms have le: "\<forall>s \<in> set ?h. timestamp s \<le> now"
    by (auto simp add: windowInvariant_def)
  from assms have "sorted (map timestamp ?h)"
    by (auto simp add: windowInvariant_def sorted_append)
  then have "sorted (map timestamp (deviationHistory (addDeviationData d now v)))"
    unfolding addDeviationData_history by (rule sorted_timestamps_filter)
  moreover have "\<forall>s \<in> set (deviationHistory (addDeviationData d now v)). timestamp s \<le> now"
    using le by (simp add: addDeviationData_history)
  ultimately show ?thesis
    unfolding windowInvariant_def
    by (auto simp del: of_int_diff intro: addDeviationData_retained)
qed

lemma detect_invariant:
  assumes "windowInvariant d t" and "t \<le> now1"
  shows "windowInvariant (snd (detectStationary rnd d now1 now x y z)) now1"
proof -
  have "windowInvariant (inserted rnd d now1 x y z) now1"
    unfolding inserted_def using assms by (rule addDeviationData_invariant)
  then show ?thesis
    by (simp add: windowInvariant_def detect_window)
qed

lemma stateAfter_invariant:
  assumes "windowInvariant d t" and "sorted (t # map fst cs)"
  shows "windowInvariant (stateAfter rnd d cs) (last (t # map fst cs))"
  using assms
proof (induction cs arbitrary: d t)
  case Nil
  then show ?case by simp
next
  case (Cons c cs)
  obtain now1 now x y z where c: "c = (now1, now, x, y, z)"
    by (cases c) auto
  from Cons.prems have "windowInvariant (snd (detectCall rnd d c)) now1"
    by (simp add: c detectCall_eq detect_invariant)
  moreover from Cons.prems have "sorted (now1 # map fst cs)"
    by (simp add: c)
  ultimately have "windowInvariant (stateAfter rnd (snd (detectCall rnd d c)) cs)
      (last (now1 # map fst cs))"
    by (rule Cons.IH)
  then show ?case by (simp add: c)
qed

text \<open>
  Claim C8. After the insertion of a call of \<open>detectStationary\<close>, every retained sample
  satisfies \<open>now - timestamp \<le> historyDurationMs\<close>, \<open>now\<close> being the clock of the
  insertion. If the clock does not run backwards, the invariant of the window
  (retention and chronological order) is kept by every call; it holds after \<open>reset\<close>
  and after construction, and along every sequence of calls with non-decreasing clock
  readings. \<open>getIsStationary\<close> reads the flag and changes nothing.
\<close>

theorem window_retention_and_order:
  "(\<forall>s \<in> set (deviationHistory (snd (detectStationary rnd d now1 now x y z))).
       real_of_int (now1 - timestamp s) \<le> historyDurationMs d) \<and>
   (windowInvariant d t \<and> t \<le> now1 \<longrightarrow>
       windowInvariant (snd (detectStationary rnd d now1 now x y z)) now1) \<and>
   windowInvariant (reset d) t \<and>
   windowInvariant (newStationaryDetector rnd o1 o2 o3 o4 o5) t \<and>
   (sorted (map fst cs) \<longrightarrow>
      (\<forall>i < length cs.
         windowInvariant (snd (trace rnd (newStationaryDetector rnd o1 o2 o3 o4 o5) cs ! i))
           (fst (cs ! i))))"
proof (intro conjI impI allI ballI)
  fix s
  assume "s \<in> set (deviationHistory (snd (detectStationary rnd d now1 now x y z)))"
  then show "real_of_int (now1 - timestamp s) \<le> historyDurationMs d"
    unfolding detect_window inserted_def by (rule addDeviationData_retained)
next
  assume "windowInvariant d t \<and> t \<le> now1"
  then show "windowInvariant (snd (detectStationary rnd d now1 now x y z)) now1"
    by (blast intro: detect_invariant)
next
  show "windowInvariant (reset d) t"
    by (simp add: windowInvariant_def reset_def)
next
  show "windowInvariant (newStationaryDetector rnd o1 o2 o3 o4 o5) t"
    by (simp add: windowInvariant_def newStationaryDetector_def)
next
  fix i
  let ?n = "newStationaryDetector rnd o1 o2 o3 o4 o5"
  assume srt: "sorted (map fst cs)" and i: "i < length cs"
  have init: "windowInvariant ?n (fst (cs ! 0))"
    by (simp add: windowInvariant_def newStationaryDetector_def)
  from i have tk: "take (Suc i) cs \<noteq> []" by auto
  from srt have "sorted (take (Suc i) (map fst cs))"
    by (rule sorted_wrt_take)
  then have s1: "sorted (map fst (take (Suc i) cs))"
    by (simp add: take_map)
  from i have hd0: "fst (cs ! 0) = hd (map fst (take (Suc i) cs))"
    by (cases cs) simp_all
  from s1 tk have "sorted (fst (cs ! 0) # map fst (take (Suc i) cs))"
    unfolding hd0 by (cases "take (Suc i) cs") simp_all
  with init have "windowInvariant (stateAfter rnd ?n (take (Suc i) cs))
      (last (fst (cs ! 0) # map fst (take (Suc i) cs)))"
    by (rule stateAfter_invariant)
  moreover from i tk have "last (fst (cs ! 0) # map fst (take (Suc i) cs)) = fst (cs ! i)"
    by (simp add: last_map take_Suc_conv_app_nth)
  ultimately show "windowInvariant (snd (trace rnd ?n cs ! i)) (fst (cs ! i))"
    using i by (simp add: trace_nth stateAfter_take_Suc)
qed

lemma example_invariant: "windowInvariant stationaryExample 3500"
  by (simp add: windowInvariant_def stationaryExample_def)

lemma example_noisy_member:
  "\<lparr>value = 98 / 10, timestamp = 3600\<rparr>
     \<in> set (deviationHistory (snd (detectStationary (\<lambda>x. x) stationaryExample 3600 3601 0 0 0)))"
  unfolding detect_window example_noisy_window by simp

theorem window_retention_and_order_witness:
  "\<lparr>value = 98 / 10, timestamp = 3600\<rparr>
     \<in> set (deviationHistory (snd (detectStationary (\<lambda>x. x) stationaryExample 3600 3601 0 0 0))) \<and>
   real_of_int (3600 - timestamp \<lparr>value = 98 / 10, timestamp = 3600\<rparr>)
     \<le> historyDurationMs stationaryExample \<and>
   windowInvariant stationaryExample 3500 \<and> (3500 :: int) \<le> 3600 \<and>
   windowInvariant (snd (detectStationary (\<lambda>x. x) stationaryExample 3600 3601 0 0 0)) 3600 \<and>
   sorted (map fst [(100 :: int, 100 :: int, 0 :: real, 0 :: real, 0 :: real), (200, 200, 0, 0, 0)]) \<and>
   windowInvariant
     (snd (trace (\<lambda>x. x) (newStationaryDetector (\<lambda>x. x) None None None None None)
        [(100, 100, 0, 0, 0), (200, 200, 0, 0, 0)] ! 1)) 200"
proof -
  note t = window_retention_and_order [where rnd = "\<lambda>x. x" and d = stationaryExample
      and ?now1.0 = 3600 and now = 3601 and x = 0 and y = 0 and z = 0 and t = 3500
      and cs = "[(100, 100, 0, 0, 0), (200, 200, 0, 0, 0)]"
      and ?o1.0 = None and ?o2.0 = None and ?o3.0 = None and ?o4.0 = None and ?o5.0 = None]
  have le: "(3500 :: int) \<le> 3600" by simp
  have srt: "sorted (map fst [(100 :: int, 100 :: int, 0 :: real, 0 :: real, 0 :: real),
      (200, 200, 0, 0, 0)])"
    by simp
  from t example_noisy_member
  have r: "real_of_int (3600 - timestamp \<lparr>value = 98 / 10, timestamp = 3600\<rparr>)
     \<le> historyDurationMs stationaryExample"
    by blast
  from t example_invariant le
  have a: "windowInvariant (snd (detectStationary (\<lambda>x. x) stationaryExample 3600 3601 0 0 0)) 3600"
    by blast
  from t srt have "\<forall>i < length [(100 :: int, 100 :: int, 0 :: real, 0 :: real, 0 :: real),
        (200, 200, 0, 0, 0)].
      windowInvariant
        (snd (trace (\<lambda>x. x) (newStationaryDetector (\<lambda>x. x) None None None None None)
           [(100, 100, 0, 0, 0), (200, 200, 0, 0, 0)] ! i))
        (fst ([(100 :: int, 100 :: int, 0 :: real, 0 :: real, 0 :: real), (200, 200, 0, 0, 0)] ! i))"
    by blast
  from this [rule_format, of 1]
  have b: "windowInvariant
     (snd (trace (\<lambda>x. x) (newStationaryDetector (\<lambda>x. x) None None None None None)
        [(100, 100, 0, 0, 0), (200, 200, 0, 0, 0)] ! 1)) 200"
    by simp
  from example_noisy_member r example_invariant le a srt b show ?thesis by blast
qed

section \<open>The three branches of a call\<close>

lemma calculateMean_cong:
  "deviationHistory a = deviationHistory b \<Longrightarrow> calculateMean rnd a = calculateMean rnd b"
  by (simp add: calculateMean_def)

lemma calculateStandardDeviation_cong:
  "deviationHistory a = deviationHistory b \<Longrightarrow>
     calculateStandardDeviation rnd a = calculateStandardDeviation rnd b"
  by (simp add: calculateStandardDeviation_def calculateMean_cong [of a b])

lemma enoughSamples_update [simp]:
  "enoughSamples (d\<lparr>isStationary := b\<rparr>) = enoughSamples d"
  "enoughSamples (d\<lparr>stationaryStartTime := t\<rparr>) = enoughSamples d"
  by (simp_all add: enoughSamples_def)

lemma currentlyQuiet_update [simp]:
  "currentlyQuiet rnd (d\<lparr>isStationary := b\<rparr>) = currentlyQuiet rnd d"
  "currentlyQuiet rnd (d\<lparr>stationaryStartTime := t\<rparr>) = currentlyQuiet rnd d"
  by (simp_all add: currentlyQuiet_def calculateMean_def calculateStandardDeviation_def)

lemma after_enoughSamples:
  "enoughSamples (snd (detectStationary rnd d now1 now x y z))
     = enoughSamples (inserted rnd d now1 x y z)"
  by (simp add: enoughSamples_def detect_window)

lemma after_currentlyQuiet:
  "currentlyQuiet rnd (snd (detectStationary rnd d now1 now x y z))
     = currentlyQuiet rnd (inserted rnd d now1 x y z)"
  using calculateMean_cong [OF detect_window, of rnd rnd d now1 now x y z]
    calculateStandardDeviation_cong [OF detect_window, of rnd rnd d now1 now x y z]
  by (simp add: currentlyQuiet_def)

lemma call_timer:
  "stationaryStartTime (snd (detectCall rnd d c)) =
     (if enoughSamples (snd (detectCall rnd d c))
      then (if currentlyQuiet rnd (snd (detectCall rnd d c))
            then Some (nullish (stationaryStartTime d) (callNow c)) else None)
      else stationaryStartTime d)"
proof -
  obtain now1 now x y z where c: "c = (now1, now, x, y, z)"
    by (cases c) auto
  show ?thesis
  proof (cases rule: detect_cases [of rnd d now1 x y z])
    case short
    with detect_short [OF short, of now] show ?thesis
      by (simp add: c detectCall_eq)
  next
    case noisy
    with detect_noisy [OF noisy, of now] show ?thesis
      by (simp add: c detectCall_eq)
  next
    case quiet
    with detect_quiet [OF quiet refl, of now] show ?thesis
      by (simp add: c detectCall_eq callNow_def
          nullish_def)
  qed
qed

lemma call_flag:
  "isStationary (snd (detectCall rnd d c)) =
     (if enoughSamples (snd (detectCall rnd d c))
      then currentlyQuiet rnd (snd (detectCall rnd d c)) \<and>
           (isStationary d \<or>
            stationaryDurationMs d
              \<le> real_of_int (callNow c - nullish (stationaryStartTime d) (callNow c)))
      else isStationary d)"
proof -
  obtain now1 now x y z where c: "c = (now1, now, x, y, z)"
    by (cases c) auto
  show ?thesis
  proof (cases rule: detect_cases [of rnd d now1 x y z])
    case short
    with detect_short [OF short, of now] show ?thesis
      by (simp add: c detectCall_eq)
  next
    case noisy
    with detect_noisy [OF noisy, of now] show ?thesis
      by (simp add: c detectCall_eq)
  next
    case quiet
    with detect_quiet [OF quiet refl, of now] show ?thesis
      by (simp add: c detectCall_eq callNow_def
          nullish_def del: of_int_diff)
  qed
qed

lemma call_result_flag:
  "isStationary_res (fst (detectCall rnd d c)) =
     (enoughSamples (snd (detectCall rnd d c)) \<and> isStationary (snd (detectCall rnd d c)))"
proof -
  obtain now1 now x y z where c: "c = (now1, now, x, y, z)"
    by (cases c) auto
  show ?thesis
  proof (cases rule: detect_cases [of rnd d now1 x y z])
    case short
    with detect_short [OF short, of now] show ?thesis
      by (simp add: c detectCall_eq neutral_def)
  next
    case noisy
    with detect_noisy [OF noisy, of now] show ?thesis
      by (simp add: c detectCall_eq)
  next
    case quiet
    with detect_quiet [OF quiet refl, of now] show ?thesis
      by (simp add: c detectCall_eq)
  qed
qed

lemma call_changed:
  "stateChanged (fst (detectCall rnd d c)) =
     (isStationary (snd (detectCall rnd d c)) \<noteq> isStationary d)"
proof -
  obtain now1 now x y z where c: "c = (now1, now, x, y, z)"
    by (cases c) auto
  show ?thesis
  proof (cases rule: detect_cases [of rnd d now1 x y z])
    case short
    with detect_short [OF short, of now] show ?thesis
      by (simp add: c detectCall_eq neutral_def)
  next
    case noisy
    with detect_noisy [OF noisy, of now] show ?thesis
      by (simp add: c detectCall_eq)
  next
    case quiet
    with detect_quiet [OF quiet refl, of now] show ?thesis
      by (auto simp add: c detectCall_eq)
  qed
qed

section \<open>The quiet streak along a sequence of calls\<close>

lemma timer_origin:
  assumes "stationaryStartTime d = None"
    and "stationaryStartTime (stateAfter rnd d cs) = Some t"
  shows "\<exists>j < length cs. callNow (cs ! j) = t \<and>
           stationaryStartTime (stateAfter rnd d (take j cs)) = None \<and>
           (\<forall>k. j < k \<and> k \<le> length cs \<longrightarrow>
                stationaryStartTime (stateAfter rnd d (take k cs)) = Some t)"
  using assms(2)
proof (induction cs arbitrary: t rule: rev_induct)
  case Nil
  with assms(1) show ?case by simp
next
  case (snoc c cs)
  let ?e = "stateAfter rnd d cs"
  let ?e' = "snd (detectCall rnd ?e c)"
  from snoc.prems have after: "stationaryStartTime ?e' = Some t"
    by (simp add: stateAfter_snoc)
  show ?case
  proof (cases "stationaryStartTime ?e")
    case None
    with after have "callNow c = t"
      using call_timer [of rnd ?e c] by (simp add: nullish_def split: if_splits)
    moreover have "\<forall>k. length cs < k \<and> k \<le> length (cs @ [c]) \<longrightarrow>
        stationaryStartTime (stateAfter rnd d (take k (cs @ [c]))) = Some t"
    proof (intro allI impI)
      fix k
      assume "length cs < k \<and> k \<le> length (cs @ [c])"
      then have "k = Suc (length cs)" by simp
      with snoc.prems show "stationaryStartTime (stateAfter rnd d (take k (cs @ [c]))) = Some t"
        by simp
    qed
    ultimately show ?thesis
      using None by (intro exI [of _ "length cs"]) simp
  next
    case (Some t')
    with after have "t' = t"
      using call_timer [of rnd ?e c] by (simp add: nullish_def split: if_splits)
    with Some have "stationaryStartTime ?e = Some t" by simp
    from snoc.IH [OF this] obtain j where j: "j < length cs" "callNow (cs ! j) = t"
      "stationaryStartTime (stateAfter rnd d (take j cs)) = None"
      "\<forall>k. j < k \<and> k \<le> length cs \<longrightarrow>
         stationaryStartTime (stateAfter rnd d (take k cs)) = Some t"
      by blast
    have "\<forall>k. j < k \<and> k \<le> length (cs @ [c]) \<longrightarrow>
        stationaryStartTime (stateAfter rnd d (take k (cs @ [c]))) = Some t"
    proof (intro allI impI)
      fix k
      assume k: "j < k \<and> k \<le> length (cs @ [c])"
      show "stationaryStartTime (stateAfter rnd d (take k (cs @ [c]))) = Some t"
      proof (cases "k \<le> length cs")
        case True
        with k j(4) show ?thesis by simp
      next
        case False
        with k have "k = Suc (length cs)" by simp
        with snoc.prems show ?thesis by simp
      qed
    qed
    with j(1,2,3) show ?thesis
      by (intro exI [of _ j]) (simp add: nth_append)
  qed
qed









section \<open>Samples of deviation 0\<close>

lemma foldl_zero_values:
  "\<forall>s \<in> set h. value s = 0 \<Longrightarrow> rnd 0 = 0 \<Longrightarrow>
     foldl (\<lambda>acc data. rnd (acc + value data)) 0 h = 0"
  by (induction h) simp_all

lemma foldl_zero_reals:
  "\<forall>v \<in> set vs. v = 0 \<Longrightarrow> rnd 0 = 0 \<Longrightarrow> foldl (\<lambda>acc val. rnd (acc + val)) 0 vs = (0 :: real)"
  by (induction vs) simp_all

lemma zero_mean:
  assumes "rnd 0 = 0" and "zeroWindow d"
  shows "calculateMean rnd d = 0"
  using assms foldl_zero_values [of "deviationHistory d" rnd]
  by (simp add: calculateMean_def zeroWindow_def)

lemma zero_standardDeviation:
  assumes "rnd 0 = 0" and "zeroWindow d"
  shows "calculateStandardDeviation rnd d = 0"
proof -
  let ?sq = "map (\<lambda>data. rnd ((rnd (value data - calculateMean rnd d))\<^sup>2)) (deviationHistory d)"
  from assms have "\<forall>v \<in> set ?sq. v = 0"
    by (simp add: zero_mean zeroWindow_def)
  then have "foldl (\<lambda>acc val. rnd (acc + val)) 0 ?sq = 0"
    using assms(1) by (rule foldl_zero_reals)
  with assms(1) show ?thesis
    by (simp add: calculateStandardDeviation_def Let_def)
qed

lemma zero_quiet:
  assumes "rnd 0 = 0" and "zeroWindow d" and "0 < meanThreshold d" and "0 < stdThreshold d"
  shows "currentlyQuiet rnd d"
  using assms by (simp add: currentlyQuiet_def zero_mean zero_standardDeviation)

lemma detectCall_window:
  "deviationHistory (snd (detectCall rnd d c)) =
     filter (\<lambda>data. real_of_int (fst c - timestamp data) \<le> historyDurationMs d)
       (deviationHistory d @ [\<lparr>value = callDeviation rnd c, timestamp = fst c\<rparr>])"
  by (cases c)
    (simp add: detectCall_eq detect_window inserted_def addDeviationData_history callDeviation_def)

lemma zero_call:
  assumes "zeroWindow d" and "callDeviation rnd c = 0"
  shows "zeroWindow (snd (detectCall rnd d c))"
  using assms by (simp add: zeroWindow_def detectCall_window)

lemma zero_stateAfter:
  assumes "zeroWindow d" and "\<forall>c \<in> set cs. callDeviation rnd c = 0"
  shows "zeroWindow (stateAfter rnd d cs)"
  using assms by (induction cs arbitrary: d) (simp_all add: zero_call)

lemma zero_take:
  assumes "zeroWindow d" and "\<forall>c \<in> set cs. callDeviation rnd c = 0"
  shows "zeroWindow (stateAfter rnd d (take k cs))"
proof (rule zero_stateAfter [OF assms(1)])
  show "\<forall>c \<in> set (take k cs). callDeviation rnd c = 0"
    using assms(2) by (meson in_set_takeD)
qed

text \<open>One call of a run of samples of deviation 0, with positive thresholds.\<close>

lemma zero_call_quiet:
  assumes "rnd 0 = 0" and "0 < meanThreshold d" and "0 < stdThreshold d"
    and "zeroWindow d" and "callDeviation rnd c = 0"
  shows "currentlyQuiet rnd (snd (detectCall rnd d c))"
  using assms by (intro zero_quiet zero_call) simp_all

lemma zero_call_timer:
  assumes "rnd 0 = 0" and "0 < meanThreshold d" and "0 < stdThreshold d"
    and "zeroWindow d" and "callDeviation rnd c = 0"
  shows "stationaryStartTime (snd (detectCall rnd d c)) =
           (if enoughSamples (snd (detectCall rnd d c))
            then Some (nullish (stationaryStartTime d) (callNow c))
            else stationaryStartTime d)"
  using call_timer [of rnd d c] zero_call_quiet [OF assms] by simp

lemma zero_call_flag:
  assumes "rnd 0 = 0" and "0 < meanThreshold d" and "0 < stdThreshold d"
    and "zeroWindow d" and "callDeviation rnd c = 0"
  shows "isStationary (snd (detectCall rnd d c)) =
           (isStationary d \<or> isStationary_res (fst (detectCall rnd d c)))"
  using call_flag [of rnd d c] call_result_flag [of rnd d c] zero_call_quiet [OF assms]
  by auto

lemma zero_call_changed:
  assumes "rnd 0 = 0" and "0 < meanThreshold d" and "0 < stdThreshold d"
    and "zeroWindow d" and "callDeviation rnd c = 0"
  shows "stateChanged (fst (detectCall rnd d c)) =
           (isStationary_res (fst (detectCall rnd d c)) \<and> \<not> isStationary d)"
  using call_changed [of rnd d c] zero_call_flag [OF assms] by auto

lemma zero_run_flag:
  assumes z: "rnd 0 = 0" "0 < meanThreshold d" "0 < stdThreshold d" "zeroWindow d"
    "\<forall>c \<in> set cs. callDeviation rnd c = 0"
    and "\<not> isStationary d" and "i \<le> length cs"
  shows "isStationary (stateAfter rnd d (take i cs))
           \<longleftrightarrow> (\<exists>m < i. isStationary_res (fst (trace rnd d cs ! m)))"
  using assms(7)
proof (induction i)
  case 0
  with assms(6) show ?case by simp
next
  case (Suc i)
  let ?e = "stateAfter rnd d (take i cs)"
  from Suc.prems have i: "i < length cs" by simp
  then have c: "callDeviation rnd (cs ! i) = 0" using z(5) by simp
  have "isStationary (stateAfter rnd d (take (Suc i) cs))
      = (isStationary ?e \<or> isStationary_res (fst (detectCall rnd ?e (cs ! i))))"
    unfolding stateAfter_take_Suc [OF i]
    by (rule zero_call_flag [where rnd = rnd]) (simp_all add: z zero_take c)
  also have "\<dots> = ((\<exists>m < i. isStationary_res (fst (trace rnd d cs ! m))) \<or>
      isStationary_res (fst (trace rnd d cs ! i)))"
    using Suc.IH i by (simp add: trace_nth)
  also have "\<dots> = (\<exists>m < Suc i. isStationary_res (fst (trace rnd d cs ! m)))"
    by (auto simp add: less_Suc_eq)
  finally show ?case .
qed

lemma zero_run_timer_persist:
  assumes z: "rnd 0 = 0" "0 < meanThreshold d" "0 < stdThreshold d" "zeroWindow d"
    "\<forall>c \<in> set cs. callDeviation rnd c = 0"
    and "stationaryStartTime (stateAfter rnd d (take a cs)) = Some t"
    and "a \<le> b" and "b \<le> length cs"
  shows "stationaryStartTime (stateAfter rnd d (take b cs)) = Some t"
  using assms(7,8)
proof (induction b rule: dec_induct)
  case base
  from assms(6) show ?case .
next
  case (step n)
  let ?e = "stateAfter rnd d (take n cs)"
  from step.prems have n: "n < length cs" by simp
  then have c: "callDeviation rnd (cs ! n) = 0" using z(5) by simp
  from step.IH n have "stationaryStartTime ?e = Some t" by simp
  moreover have "stationaryStartTime (snd (detectCall rnd ?e (cs ! n))) =
      (if enoughSamples (snd (detectCall rnd ?e (cs ! n)))
       then Some (nullish (stationaryStartTime ?e) (callNow (cs ! n)))
       else stationaryStartTime ?e)"
    by (rule zero_call_timer [where rnd = rnd]) (simp_all add: z zero_take c)
  ultimately show ?case
    by (simp add: stateAfter_take_Suc [OF n] nullish_def)
qed

lemma timer_not_later:
  assumes "stationaryStartTime d = None" and "sorted (map callNow cs)"
    and "stationaryStartTime (stateAfter rnd d (take k cs)) = Some t"
    and "k \<le> m" and "m < length cs"
  shows "t \<le> callNow (cs ! m)"
proof -
  from timer_origin [OF assms(1,3)] assms(4,5)
  obtain j where j: "j < k" "callNow (cs ! j) = t"
    by (auto simp add: min_def)
  from assms(2) have "map callNow cs ! j \<le> map callNow cs ! m"
    using j(1) assms(4,5) by (intro sorted_nth_mono) simp_all
  with j assms(4,5) show ?thesis by simp
qed

lemma zero_run_reached:
  assumes z: "rnd 0 = 0" "0 < meanThreshold d" "0 < stdThreshold d" "zeroWindow d"
    "\<forall>c \<in> set cs. callDeviation rnd c = 0"
    and fresh: "stationaryStartTime d = None"
    and srt: "sorted (map callNow cs)"
    and ji: "j \<le> i" "i < length cs"
    and full: "enoughSamples (snd (trace rnd d cs ! j))" "enoughSamples (snd (trace rnd d cs ! i))"
    and dwell: "stationaryDurationMs d \<le> real_of_int (callNow (cs ! i) - callNow (cs ! j))"
  shows "isStationary_res (fst (trace rnd d cs ! i))"
proof -
  let ?ej = "stateAfter rnd d (take j cs)"
  let ?ei = "stateAfter rnd d (take i cs)"
  from ji have j: "j < length cs" by simp
  have cj: "callDeviation rnd (cs ! j) = 0" and ci: "callDeviation rnd (cs ! i) = 0"
    using z(5) j ji(2) by simp_all
  have tj: "stationaryStartTime (stateAfter rnd d (take (Suc j) cs))
      = Some (nullish (stationaryStartTime ?ej) (callNow (cs ! j)))"
    using zero_call_timer [where rnd = rnd and d = ?ej and c = "cs ! j"] full(1) j
    by (simp add: z zero_take cj trace_nth stateAfter_take_Suc)
  have le: "nullish (stationaryStartTime ?ej) (callNow (cs ! j)) \<le> callNow (cs ! j)"
  proof (cases "stationaryStartTime ?ej")
    case None
    then show ?thesis by (simp add: nullish_def)
  next
    case (Some t)
    from timer_not_later [OF fresh srt Some order_refl j] Some show ?thesis
      by (simp add: nullish_def)
  qed
  have start: "nullish (stationaryStartTime ?ei) (callNow (cs ! i)) \<le> callNow (cs ! j)"
  proof (cases "j = i")
    case True
    with le show ?thesis by simp
  next
    case False
    with ji have "Suc j \<le> i" "i \<le> length cs" by simp_all
    from zero_run_timer_persist [OF z tj this]
    show ?thesis using le by (simp add: nullish_def)
  qed
  from start dwell
  have "stationaryDurationMs d
      \<le> real_of_int (callNow (cs ! i) - nullish (stationaryStartTime ?ei) (callNow (cs ! i)))"
    by simp
  moreover have "currentlyQuiet rnd (snd (detectCall rnd ?ei (cs ! i)))"
    by (rule zero_call_quiet [where rnd = rnd]) (simp_all add: z zero_take ci)
  moreover from full(2) ji(2) have "enoughSamples (snd (detectCall rnd ?ei (cs ! i)))"
    by (simp add: trace_nth)
  ultimately show ?thesis
    using call_flag [of rnd ?ei "cs ! i"] call_result_flag [of rnd ?ei "cs ! i"] ji(2)
    by (simp add: trace_nth)
qed

lemma zero_run_changed:
  assumes z: "rnd 0 = 0" "0 < meanThreshold d" "0 < stdThreshold d" "zeroWindow d"
    "\<forall>c \<in> set cs. callDeviation rnd c = 0"
    and "\<not> isStationary d" and i: "i < length cs"
  shows "stateChanged (fst (trace rnd d cs ! i)) \<longleftrightarrow>
           isStationary_res (fst (trace rnd d cs ! i)) \<and>
           (\<forall>m < i. \<not> isStationary_res (fst (trace rnd d cs ! m)))"
proof -
  let ?e = "stateAfter rnd d (take i cs)"
  from i z(5) have c: "callDeviation rnd (cs ! i) = 0" by simp
  have "stateChanged (fst (detectCall rnd ?e (cs ! i))) =
      (isStationary_res (fst (detectCall rnd ?e (cs ! i))) \<and> \<not> isStationary ?e)"
    by (rule zero_call_changed [where rnd = rnd]) (simp_all add: z zero_take c)
  moreover from i have "isStationary ?e \<longleftrightarrow> (\<exists>m < i. isStationary_res (fst (trace rnd d cs ! m)))"
    by (intro zero_run_flag [OF z assms(6)]) simp
  ultimately show ?thesis
    using i by (auto simp add: trace_nth)
qed

section \<open>Convergence on quiet samples\<close>

lemma binary64_gravity_square:
  "binary64 (5516909543528858 / 2 ^ 49 * (5516909543528858 / 2 ^ 49)) = 6758214190822852 / 2 ^ 46"
proof -
  let ?v = "5516909543528858 / 2 ^ 49 * (5516909543528858 / 2 ^ 49) :: real"
  have "binary64 ?v = of_int (rne (?v / 2 powi (6 - 52))) * 2 powi (6 - 52)"
    by (rule binary64_binade) simp_all
  moreover have "rne (?v / 2 powi (6 - 52)) = 6758214190822852"
    by (rule rne_nearest) simp_all
  ultimately show ?thesis by simp
qed

lemma binary64_sqrt_gravity:
  "binary64 (sqrt (6758214190822852 / 2 ^ 46)) = 5516909543528858 / 2 ^ 49"
proof -
  let ?s = "6758214190822852 / 2 ^ 46 :: real"
  let ?n = "5516909543528858 :: int"
  have lo: "(real_of_int ?n - 1 / 2) / 2 ^ 49 < sqrt ?s"
    by (rule real_less_rsqrt) (simp add: power2_eq_square)
  have hi: "sqrt ?s < (real_of_int ?n + 1 / 2) / 2 ^ 49"
    by (rule real_less_lsqrt) (simp_all add: power2_eq_square)
  from lo have "8 \<le> sqrt ?s" by simp
  moreover from hi have "sqrt ?s < 16" by simp
  ultimately have "2 powi 3 \<le> \<bar>sqrt ?s\<bar>" "\<bar>sqrt ?s\<bar> < 2 powi (3 + 1)"
    by simp_all
  then have "binary64 (sqrt ?s) = of_int (rne (sqrt ?s / 2 powi (3 - 52))) * 2 powi (3 - 52)"
    by (rule binary64_binade)
  moreover have "rne (sqrt ?s / 2 powi (3 - 52)) = ?n"
  proof (rule rne_nearest)
    from lo show "real_of_int ?n - 1 / 2 < sqrt ?s / 2 powi (3 - 52)"
      by (simp add: field_simps)
    from hi show "sqrt ?s / 2 powi (3 - 52) < real_of_int ?n + 1 / 2"
      by (simp add: field_simps)
  qed
  ultimately show ?thesis by simp
qed

lemma binary64_gravity_square_exact:
  "binary64 (6758214190822852 / 2 ^ 46) = 6758214190822852 / 2 ^ 46"
  by (rule binary64_exact [where k = 6 and n = 6758214190822852]) simp_all

lemma magnitude_binary64_gravity:
  "magnitude binary64 0 0 (binary64 (98 / 10)) = binary64 (98 / 10)"
  unfolding magnitude_def binary64_gravity
  by (simp only: mult_zero_left binary64_0 add_0 binary64_gravity_square
      binary64_gravity_square_exact binary64_sqrt_gravity)

lemma deviation_binary64_gravity: "deviation binary64 0 0 (binary64 (98 / 10)) = 0"
  unfolding deviation_def magnitude_binary64_gravity
  by (simp only: diff_self binary64_0 abs_zero)

lemma sparse_step:
  assumes "length h \<le> 1"
  shows "detectStationary rnd
     \<lparr>deviationHistory = h, isStationary = False, stationaryStartTime = None,
      historyDurationMs = 2000, meanThreshold = mt, stdThreshold = st,
      stationaryDurationMs = 2000, minSampleCount = 10\<rparr> t1 t2 x y z
   = (neutral,
      \<lparr>deviationHistory = filter (\<lambda>data. real_of_int (t1 - timestamp data) \<le> 2000)
                             (h @ [\<lparr>value = deviation rnd x y z, timestamp = t1\<rparr>]),
       isStationary = False, stationaryStartTime = None,
       historyDurationMs = 2000, meanThreshold = mt, stdThreshold = st,
       stationaryDurationMs = 2000, minSampleCount = 10\<rparr>)"
proof -
  let ?d = "\<lparr>deviationHistory = h, isStationary = False, stationaryStartTime = None,
      historyDurationMs = 2000, meanThreshold = mt, stdThreshold = st,
      stationaryDurationMs = 2000, minSampleCount = 10\<rparr>"
  have "length (deviationHistory (inserted rnd ?d t1 x y z)) \<le> Suc (length h)"
    using addDeviationData_length [of ?d t1] by (simp add: inserted_def)
  with assms have "\<not> enoughSamples (inserted rnd ?d t1 x y z)"
    by (simp add: enoughSamples_def)
  from detect_short [OF this, of t2] show ?thesis
    by (simp add: inserted_def addDeviationData_def)
qed

lemma sparse_samples_never_stationary:
  "map (callDeviation binary64) sparseDoubleCalls = replicate 11 0 \<and>
   minSampleCount (serviceDetector binary64) \<le> real (length sparseDoubleCalls) \<and>
   stationaryDurationMs (serviceDetector binary64)
     < real_of_int (callNow (last sparseDoubleCalls) - callNow (hd sparseDoubleCalls)) \<and>
   map (\<lambda>p. isStationary_res (fst p)) (trace binary64 (serviceDetector binary64) sparseDoubleCalls)
     = replicate 11 False"
proof -
  note calls = sparseDoubleCalls_def
  note dev = deviation_binary64_gravity [simplified]
  have svc: "serviceDetector binary64 =
     \<lparr>deviationHistory = [], isStationary = False, stationaryStartTime = None,
      historyDurationMs = 2000, meanThreshold = binary64 (3 / 10), stdThreshold = binary64 (1 / 5),
      stationaryDurationMs = 2000, minSampleCount = 10\<rparr>"
    by (simp add: serviceDetector_def newStationaryDetector_def nullish_def)
  have a: "map (callDeviation binary64) sparseDoubleCalls = replicate 11 0"
    unfolding calls by (simp add: callDeviation_def dev numeral_eq_Suc)
  have b: "minSampleCount (serviceDetector binary64) \<le> real (length sparseDoubleCalls)"
    unfolding calls by (simp add: svc)
  have c: "stationaryDurationMs (serviceDetector binary64)
     < real_of_int (callNow (last sparseDoubleCalls) - callNow (hd sparseDoubleCalls))"
    unfolding calls by (simp add: svc callNow_def)
  have d: "map (\<lambda>p. isStationary_res (fst p))
      (trace binary64 (serviceDetector binary64) sparseDoubleCalls) = replicate 11 False"
    unfolding calls svc
    by (simp add: detectCall_eq sparse_step dev neutral_def numeral_eq_Suc)
  from a b c d show ?thesis by blast
qed

lemma strict_step:
  assumes "\<forall>s \<in> set h. value s = 0"
  shows "isStationary_res (fst (detectStationary binary64
     \<lparr>deviationHistory = h, isStationary = False, stationaryStartTime = None,
      historyDurationMs = 2000, meanThreshold = 0, stdThreshold = st,
      stationaryDurationMs = 200, minSampleCount = 2\<rparr> t1 t2 0 0 (binary64 (98 / 10)))) = False"
    and "snd (detectStationary binary64
     \<lparr>deviationHistory = h, isStationary = False, stationaryStartTime = None,
      historyDurationMs = 2000, meanThreshold = 0, stdThreshold = st,
      stationaryDurationMs = 200, minSampleCount = 2\<rparr> t1 t2 0 0 (binary64 (98 / 10)))
     = \<lparr>deviationHistory = filter (\<lambda>data. real_of_int (t1 - timestamp data) \<le> 2000)
                             (h @ [\<lparr>value = 0, timestamp = t1\<rparr>]),
        isStationary = False, stationaryStartTime = None,
        historyDurationMs = 2000, meanThreshold = 0, stdThreshold = st,
        stationaryDurationMs = 200, minSampleCount = 2\<rparr>"
proof -
  let ?d = "\<lparr>deviationHistory = h, isStationary = False, stationaryStartTime = None,
      historyDurationMs = 2000, meanThreshold = 0, stdThreshold = st,
      stationaryDurationMs = 200, minSampleCount = 2\<rparr>"
  let ?w = "inserted binary64 ?d t1 0 0 (binary64 (98 / 10))"
  have w: "?w = \<lparr>deviationHistory = filter (\<lambda>data. real_of_int (t1 - timestamp data) \<le> 2000)
                             (h @ [\<lparr>value = 0, timestamp = t1\<rparr>]),
        isStationary = False, stationaryStartTime = None,
        historyDurationMs = 2000, meanThreshold = 0, stdThreshold = st,
        stationaryDurationMs = 200, minSampleCount = 2\<rparr>"
    by (simp add: inserted_def addDeviationData_def deviation_binary64_gravity [simplified])
  from assms have "zeroWindow ?w"
    unfolding w by (simp add: zeroWindow_def)
  then have "calculateMean binary64 ?w = 0"
    by (intro zero_mean) simp_all
  then have nq: "\<not> currentlyQuiet binary64 ?w"
    by (simp add: currentlyQuiet_def)
  show "isStationary_res (fst (detectStationary binary64 ?d t1 t2 0 0 (binary64 (98 / 10)))) = False"
  proof (cases "enoughSamples ?w")
    case True
    from detect_noisy [OF True nq, of t2] show ?thesis by simp
  next
    case False
    from detect_short [OF False, of t2] show ?thesis by (simp add: neutral_def)
  qed
  show "snd (detectStationary binary64 ?d t1 t2 0 0 (binary64 (98 / 10))) =
        \<lparr>deviationHistory = filter (\<lambda>data. real_of_int (t1 - timestamp data) \<le> 2000)
                             (h @ [\<lparr>value = 0, timestamp = t1\<rparr>]),
        isStationary = False, stationaryStartTime = None,
        historyDurationMs = 2000, meanThreshold = 0, stdThreshold = st,
        stationaryDurationMs = 200, minSampleCount = 2\<rparr>"
  proof (cases "enoughSamples ?w")
    case True
    from detect_noisy [OF True nq, of t2] show ?thesis unfolding w by simp
  next
    case False
    from detect_short [OF False, of t2] show ?thesis unfolding w by simp
  qed
qed

lemma strict_trace:
  "map (\<lambda>p. isStationary_res (fst p)) (trace binary64 strictDouble denseDoubleCalls)
     = replicate 4 False"
proof -
  have d: "strictDouble =
     \<lparr>deviationHistory = [], isStationary = False, stationaryStartTime = None,
      historyDurationMs = 2000, meanThreshold = 0, stdThreshold = binary64 (1 / 5),
      stationaryDurationMs = 200, minSampleCount = 2\<rparr>"
    by (simp add: strictDouble_def newStationaryDetector_def nullish_def)
  show ?thesis
    unfolding d denseDoubleCalls_def
    by (simp add: detectCall_eq strict_step [simplified] numeral_eq_Suc)
qed

lemma strict_windows:
  "map (\<lambda>p. length (deviationHistory (snd p))) (trace binary64 strictDouble denseDoubleCalls)
     = [1, 2, 3, 4]"
proof -
  have d: "strictDouble =
     \<lparr>deviationHistory = [], isStationary = False, stationaryStartTime = None,
      historyDurationMs = 2000, meanThreshold = 0, stdThreshold = binary64 (1 / 5),
      stationaryDurationMs = 200, minSampleCount = 2\<rparr>"
    by (simp add: strictDouble_def newStationaryDetector_def nullish_def)
  show ?thesis
    unfolding d denseDoubleCalls_def
    by (simp add: detectCall_eq strict_step [simplified])
qed

text \<open>
  Claim C2 as stated fails in the language's arithmetic, in two ways. The service's own
  detector (the default parameters) is fed eleven samples \<open>(0, 0, 9.8)\<close>, of deviation
  exactly 0, over 30 seconds: at least \<open>minSampleCount\<close> samples over more than
  \<open>stationaryDurationMs\<close>; the window never holds more than one of them, and no call
  returns stationary. A detector whose mean threshold is 0 is fed four such samples
  over 300 ms, more than its dwell time of 200 ms, its window holding all of them: the
  mean 0 is not below the threshold, and no call returns stationary.
\<close>

theorem quiet_samples_counterexample:
  "map (callDeviation binary64) sparseDoubleCalls = replicate 11 0 \<and>
   minSampleCount (serviceDetector binary64) \<le> real (length sparseDoubleCalls) \<and>
   stationaryDurationMs (serviceDetector binary64)
     < real_of_int (callNow (last sparseDoubleCalls) - callNow (hd sparseDoubleCalls)) \<and>
   map (\<lambda>p. isStationary_res (fst p)) (trace binary64 (serviceDetector binary64) sparseDoubleCalls)
     = replicate 11 False \<and>
   map (callDeviation binary64) denseDoubleCalls = replicate 4 0 \<and>
   minSampleCount strictDouble \<le> real (length denseDoubleCalls) \<and>
   stationaryDurationMs strictDouble
     < real_of_int (callNow (last denseDoubleCalls) - callNow (hd denseDoubleCalls)) \<and>
   map (\<lambda>p. length (deviationHistory (snd p))) (trace binary64 strictDouble denseDoubleCalls)
     = [1, 2, 3, 4] \<and>
   map (\<lambda>p. isStationary_res (fst p)) (trace binary64 strictDouble denseDoubleCalls)
     = replicate 4 False"
proof -
  have a: "map (callDeviation binary64) denseDoubleCalls = replicate 4 0"
    unfolding denseDoubleCalls_def
    by (simp add: callDeviation_def deviation_binary64_gravity [simplified] numeral_eq_Suc)
  have b: "minSampleCount strictDouble \<le> real (length denseDoubleCalls)"
    by (simp add: strictDouble_def newStationaryDetector_def nullish_def denseDoubleCalls_def)
  have c: "stationaryDurationMs strictDouble
     < real_of_int (callNow (last denseDoubleCalls) - callNow (hd denseDoubleCalls))"
    by (simp add: strictDouble_def newStationaryDetector_def nullish_def denseDoubleCalls_def
        callNow_def)
  from sparse_samples_never_stationary a b c strict_windows strict_trace show ?thesis
    by blast
qed

text \<open>
  Claim C2, amended. Take positive thresholds, a detector as construction or \<open>reset\<close>
  leaves it, a clock that does not run backwards, and samples of deviation exactly 0
  (a rounding that keeps 0 exact). Then a call whose window holds at least
  \<open>minSampleCount\<close> samples, and which comes at least \<open>stationaryDurationMs\<close> after a
  call whose window did, returns stationary; one call, not later than it, reports the
  state change and returns stationary, and no other call of the sequence reports a state
  change. The state change is reported exactly by the first call that returns
  stationary.
\<close>

theorem quiet_window_convergence:
  assumes "rnd 0 = 0" and "0 < meanThreshold d" and "0 < stdThreshold d"
    and "deviationHistory d = []" and "\<not> isStationary d" and "stationaryStartTime d = None"
    and "\<forall>c \<in> set cs. callDeviation rnd c = 0"
    and "sorted (map callNow cs)"
  shows "(\<forall>j i. j \<le> i \<and> i < length cs \<and>
            enoughSamples (snd (trace rnd d cs ! j)) \<and> enoughSamples (snd (trace rnd d cs ! i)) \<and>
            stationaryDurationMs d \<le> real_of_int (callNow (cs ! i) - callNow (cs ! j)) \<longrightarrow>
            isStationary_res (fst (trace rnd d cs ! i)) \<and>
            (\<exists>k \<le> i. stateChanged (fst (trace rnd d cs ! k)) \<and>
                isStationary_res (fst (trace rnd d cs ! k)) \<and>
                (\<forall>m < length cs. stateChanged (fst (trace rnd d cs ! m)) \<longrightarrow> m = k))) \<and>
         (\<forall>i < length cs.
            stateChanged (fst (trace rnd d cs ! i)) \<longleftrightarrow>
              isStationary_res (fst (trace rnd d cs ! i)) \<and>
              (\<forall>m < i. \<not> isStationary_res (fst (trace rnd d cs ! m))))"
proof -
  let ?res = "\<lambda>i. isStationary_res (fst (trace rnd d cs ! i))"
  let ?chg = "\<lambda>i. stateChanged (fst (trace rnd d cs ! i))"
  from assms(4) have zero: "zeroWindow d"
    by (simp add: zeroWindow_def)
  note z = assms(1,2,3) zero assms(7)
  have changed: "\<forall>i < length cs. ?chg i \<longleftrightarrow> ?res i \<and> (\<forall>m < i. \<not> ?res m)"
    using zero_run_changed [OF z assms(5)] by blast
  have "\<forall>j i. j \<le> i \<and> i < length cs \<and>
            enoughSamples (snd (trace rnd d cs ! j)) \<and> enoughSamples (snd (trace rnd d cs ! i)) \<and>
            stationaryDurationMs d \<le> real_of_int (callNow (cs ! i) - callNow (cs ! j)) \<longrightarrow>
            ?res i \<and> (\<exists>k \<le> i. ?chg k \<and> ?res k \<and> (\<forall>m < length cs. ?chg m \<longrightarrow> m = k))"
  proof (intro allI impI)
    fix j i
    assume h: "j \<le> i \<and> i < length cs \<and>
            enoughSamples (snd (trace rnd d cs ! j)) \<and> enoughSamples (snd (trace rnd d cs ! i)) \<and>
            stationaryDurationMs d \<le> real_of_int (callNow (cs ! i) - callNow (cs ! j))"
    then have res: "?res i"
      using zero_run_reached [OF z assms(6,8), of j i] by blast
    define k where "k = (LEAST m. ?res m)"
    from res have k: "?res k" "k \<le> i"
      unfolding k_def by (rule LeastI, rule Least_le)
    have least: "\<forall>m < k. \<not> ?res m"
      unfolding k_def using not_less_Least by blast
    from h k(2) have klen: "k < length cs" by simp
    with changed k(1) least have ck: "?chg k" by blast
    have "\<forall>m < length cs. ?chg m \<longrightarrow> m = k"
    proof (intro allI impI)
      fix m
      assume m: "m < length cs" and cm: "?chg m"
      with changed have rm: "?res m" and before: "\<forall>n < m. \<not> ?res n" by blast+
      from rm least have "\<not> m < k" by blast
      moreover from k(1) before have "\<not> k < m" by blast
      ultimately show "m = k" by simp
    qed
    with res ck k show "?res i \<and> (\<exists>k \<le> i. ?chg k \<and> ?res k \<and> (\<forall>m < length cs. ?chg m \<longrightarrow> m = k))"
      by blast
  qed
  with changed show ?thesis by blast
qed

lemma quiet_first_call:
  "detectStationary (\<lambda>x. x) sensitiveExample 1000 1000 0 0 (49 / 5) =
     (\<lparr>isStationary_res = False, mean = 0, standardDeviation = 0, duration = 0,
        stateChanged = False\<rparr>,
      \<lparr>deviationHistory = [\<lparr>value = 0, timestamp = 1000\<rparr>],
       isStationary = False, stationaryStartTime = Some 1000, historyDurationMs = 2000,
       meanThreshold = 3 / 10, stdThreshold = 1 / 5, stationaryDurationMs = 2000,
       minSampleCount = 1\<rparr>)"
  by (simp add: detectStationary_def Let_def addDeviationData_def calculateMean_def
      calculateStandardDeviation_def deviation_exact_gravity [simplified] sensitiveExample_def
      newStationaryDetector_def nullish_def)

lemma quiet_second_call:
  "detectStationary (\<lambda>x. x)
      \<lparr>deviationHistory = [\<lparr>value = 0, timestamp = 1000\<rparr>],
       isStationary = False, stationaryStartTime = Some 1000, historyDurationMs = 2000,
       meanThreshold = 3 / 10, stdThreshold = 1 / 5, stationaryDurationMs = 2000,
       minSampleCount = 1\<rparr> 3000 3000 0 0 (49 / 5) =
     (\<lparr>isStationary_res = True, mean = 0, standardDeviation = 0, duration = 2000,
        stateChanged = True\<rparr>,
      \<lparr>deviationHistory = [\<lparr>value = 0, timestamp = 1000\<rparr>, \<lparr>value = 0, timestamp = 3000\<rparr>],
       isStationary = True, stationaryStartTime = Some 1000, historyDurationMs = 2000,
       meanThreshold = 3 / 10, stdThreshold = 1 / 5, stationaryDurationMs = 2000,
       minSampleCount = 1\<rparr>)"
  by (simp add: detectStationary_def Let_def addDeviationData_def calculateMean_def
      calculateStandardDeviation_def deviation_exact_gravity [simplified])

lemma quiet_third_call:
  "detectStationary (\<lambda>x. x)
      \<lparr>deviationHistory = [\<lparr>value = 0, timestamp = 1000\<rparr>, \<lparr>value = 0, timestamp = 3000\<rparr>],
       isStationary = True, stationaryStartTime = Some 1000, historyDurationMs = 2000,
       meanThreshold = 3 / 10, stdThreshold = 1 / 5, stationaryDurationMs = 2000,
       minSampleCount = 1\<rparr> 3100 3100 0 0 (49 / 5) =
     (\<lparr>isStationary_res = True, mean = 0, standardDeviation = 0, duration = 2100,
        stateChanged = False\<rparr>,
      \<lparr>deviationHistory = [\<lparr>value = 0, timestamp = 3000\<rparr>, \<lparr>value = 0, timestamp = 3100\<rparr>],
       isStationary = True, stationaryStartTime = Some 1000, historyDurationMs = 2000,
       meanThreshold = 3 / 10, stdThreshold = 1 / 5, stationaryDurationMs = 2000,
       minSampleCount = 1\<rparr>)"
  by (simp add: detectStationary_def Let_def addDeviationData_def calculateMean_def
      calculateStandardDeviation_def deviation_exact_gravity [simplified])

lemma quiet_trace:
  "map fst (trace (\<lambda>x. x) sensitiveExample quietCalls) =
     [\<lparr>isStationary_res = False, mean = 0, standardDeviation = 0, duration = 0,
        stateChanged = False\<rparr>,
      \<lparr>isStationary_res = True, mean = 0, standardDeviation = 0, duration = 2000,
        stateChanged = True\<rparr>,
      \<lparr>isStationary_res = True, mean = 0, standardDeviation = 0, duration = 2100,
        stateChanged = False\<rparr>]"
  by (simp add: quietCalls_def detectCall_eq quiet_first_call quiet_second_call quiet_third_call)

lemma quiet_trace_full:
  "enoughSamples (snd (trace (\<lambda>x. x) sensitiveExample quietCalls ! 0))"
  "enoughSamples (snd (trace (\<lambda>x. x) sensitiveExample quietCalls ! 1))"
  by (simp_all add: quietCalls_def detectCall_eq quiet_first_call quiet_second_call
      enoughSamples_def)

theorem quiet_window_convergence_witness:
  "(\<lambda>x :: real. x) 0 = 0 \<and> 0 < meanThreshold sensitiveExample \<and>
   0 < stdThreshold sensitiveExample \<and> deviationHistory sensitiveExample = [] \<and>
   \<not> isStationary sensitiveExample \<and> stationaryStartTime sensitiveExample = None \<and>
   map (callDeviation (\<lambda>x. x)) quietCalls = [0, 0, 0] \<and>
   sorted (map callNow quietCalls) \<and>
   enoughSamples (snd (trace (\<lambda>x. x) sensitiveExample quietCalls ! 0)) \<and>
   enoughSamples (snd (trace (\<lambda>x. x) sensitiveExample quietCalls ! 1)) \<and>
   stationaryDurationMs sensitiveExample
     \<le> real_of_int (callNow (quietCalls ! 1) - callNow (quietCalls ! 0)) \<and>
   isStationary_res (fst (trace (\<lambda>x. x) sensitiveExample quietCalls ! 1)) \<and>
   map (\<lambda>p. stateChanged (fst p)) (trace (\<lambda>x. x) sensitiveExample quietCalls)
     = [False, True, False]"
proof -
  have a: "(\<lambda>x :: real. x) 0 = 0" "0 < meanThreshold sensitiveExample"
    "0 < stdThreshold sensitiveExample" "deviationHistory sensitiveExample = []"
    "\<not> isStationary sensitiveExample" "stationaryStartTime sensitiveExample = None"
    by (simp_all add: sensitive_parameters)
  have dev: "map (callDeviation (\<lambda>x. x)) quietCalls = [0, 0, 0]"
    by (simp add: quietCalls_def callDeviation_def deviation_exact_gravity [simplified])
  then have b: "\<forall>c \<in> set quietCalls. callDeviation (\<lambda>x. x) c = 0"
    by (simp add: quietCalls_def)
  have c: "sorted (map callNow quietCalls)"
    by (simp add: quietCalls_def callNow_def)
  have e: "stationaryDurationMs sensitiveExample
     \<le> real_of_int (callNow (quietCalls ! 1) - callNow (quietCalls ! 0))"
    by (simp add: quietCalls_def callNow_def sensitive_parameters)
  note t = quiet_window_convergence [OF a b c]
  from t have "\<forall>j i. j \<le> i \<and> i < length quietCalls \<and>
            enoughSamples (snd (trace (\<lambda>x. x) sensitiveExample quietCalls ! j)) \<and>
            enoughSamples (snd (trace (\<lambda>x. x) sensitiveExample quietCalls ! i)) \<and>
            stationaryDurationMs sensitiveExample
              \<le> real_of_int (callNow (quietCalls ! i) - callNow (quietCalls ! j)) \<longrightarrow>
            isStationary_res (fst (trace (\<lambda>x. x) sensitiveExample quietCalls ! i))"
    by blast
  from this [rule_format, of 0 1] quiet_trace_full e
  have r: "isStationary_res (fst (trace (\<lambda>x. x) sensitiveExample quietCalls ! 1))"
    by (simp add: quietCalls_def)
  have s: "map (\<lambda>p. stateChanged (fst p)) (trace (\<lambda>x. x) sensitiveExample quietCalls)
     = [False, True, False]"
  proof -
    have "map (\<lambda>p. stateChanged (fst p)) (trace (\<lambda>x. x) sensitiveExample quietCalls)
        = map stateChanged (map fst (trace (\<lambda>x. x) sensitiveExample quietCalls))"
      by (simp add: comp_def)
    then show ?thesis unfolding quiet_trace by simp
  qed
  from a dev c quiet_trace_full e r s show ?thesis by blast
qed

section \<open>A noisy sample in a short window\<close>













section \<open>The magnitude under rounding\<close>

lemma sqrt_36: "sqrt 36 = 6"
  by (rule real_sqrt_unique) simp_all

lemma binary64_sqrt_above: "binary64 (sqrt (1 / 2 ^ 47 + 36)) = 6 + 1 / 2 ^ 50"
proof -
  let ?s = "1 / 2 ^ 47 + 36 :: real"
  let ?n = "6 * 2 ^ 50 :: int"
  have lo: "(real_of_int ?n + 1 / 2) / 2 ^ 50 < sqrt ?s"
    by (rule real_less_rsqrt) (simp add: power2_eq_square)
  have hi: "sqrt ?s < (real_of_int ?n + 1) / 2 ^ 50"
    by (rule real_less_lsqrt) (simp_all add: power2_eq_square)
  from lo have "4 \<le> sqrt ?s" by simp
  moreover from hi have "sqrt ?s < 8" by simp
  ultimately have "2 powi 2 \<le> \<bar>sqrt ?s\<bar>" "\<bar>sqrt ?s\<bar> < 2 powi (2 + 1)"
    by simp_all
  then have "binary64 (sqrt ?s) = of_int (rne (sqrt ?s / 2 powi (2 - 52))) * 2 powi (2 - 52)"
    by (rule binary64_binade)
  moreover have "rne (sqrt ?s / 2 powi (2 - 52)) = ?n + 1"
  proof (rule rne_upper_half)
    from lo show "real_of_int ?n + 1 / 2 < sqrt ?s / 2 powi (2 - 52)"
      by (simp add: field_simps)
    from hi show "sqrt ?s / 2 powi (2 - 52) < real_of_int ?n + 1"
      by (simp add: field_simps)
  qed
  ultimately show ?thesis by simp
qed

lemma magnitude_binary64_xyz: "magnitude binary64 6 (1 / 2 ^ 24) (1 / 2 ^ 24) = 6"
proof -
  have sq: "(1 / 2 ^ 24 :: real) * (1 / 2 ^ 24) = 1 / 2 ^ 48" "(6 :: real) * 6 = 36"
    by simp_all
  show ?thesis
    unfolding magnitude_def sq binary64_36 binary64_small binary64_tie sqrt_36 binary64_6 ..
qed

lemma magnitude_binary64_yzx: "magnitude binary64 (1 / 2 ^ 24) (1 / 2 ^ 24) 6 = 6 + 1 / 2 ^ 50"
proof -
  have sq: "(1 / 2 ^ 24 :: real) * (1 / 2 ^ 24) = 1 / 2 ^ 48" "(6 :: real) * 6 = 36"
    "(1 / 2 ^ 48 :: real) + 1 / 2 ^ 48 = 1 / 2 ^ 47"
    by simp_all
  show ?thesis
    unfolding magnitude_def sq(1,2) binary64_36 binary64_small sq(3) binary64_small2
      binary64_above binary64_sqrt_above ..
qed

lemma deviation_binary64_xyz:
  "deviation binary64 6 (1 / 2 ^ 24) (1 / 2 ^ 24) = 2139209823000986 / 2 ^ 49"
proof -
  have "binary64 (6 - 5516909543528858 / 2 ^ 49) = 6 - 5516909543528858 / 2 ^ 49"
    by (rule binary64_exact [where k = 1 and n = "- 8556839292003944"]) simp_all
  then show ?thesis
    unfolding deviation_def magnitude_binary64_xyz binary64_gravity by simp
qed

lemma deviation_binary64_yzx:
  "deviation binary64 (1 / 2 ^ 24) (1 / 2 ^ 24) 6 = 4278419646001971 / 2 ^ 50"
proof -
  have "binary64 (6 + 1 / 2 ^ 50 - 5516909543528858 / 2 ^ 49)
      = 6 + 1 / 2 ^ 50 - 5516909543528858 / 2 ^ 49"
    by (rule binary64_exact [where k = 1 and n = "- 8556839292003942"]) simp_all
  then show ?thesis
    unfolding deviation_def magnitude_binary64_yzx binary64_gravity by simp
qed

lemma first_window:
  "deviationHistory (snd (detectStationary rnd (serviceDetector rnd) 1000 1000 x y z))
     = [\<lparr>value = deviation rnd x y z, timestamp = 1000\<rparr>]"
  by (simp add: detect_window inserted_def addDeviationData_history serviceDetector_def
      newStationaryDetector_def nullish_def)

text \<open>
  Claim C10 as stated fails in the language's own arithmetic. For the sample
  \<open>(6, 2\<^sup>-\<^sup>2\<^sup>4, 2\<^sup>-\<^sup>2\<^sup>4)\<close> the sum of squares is rounded to 36 twice (both
  additions are ties, rounded to even) and the magnitude is 6; for the same values in the
  order \<open>(2\<^sup>-\<^sup>2\<^sup>4, 2\<^sup>-\<^sup>2\<^sup>4, 6)\<close> the sum is exactly \<open>36 + 2\<^sup>-\<^sup>4\<^sup>7\<close> and the
  magnitude is \<open>6 + 2\<^sup>-\<^sup>5\<^sup>0\<close>. The service's detector stores different deviations, so
  the two calls differ.
\<close>

theorem axis_rotation_counterexample:
  "magnitude binary64 6 (1 / 2 ^ 24) (1 / 2 ^ 24) = 6 \<and>
   magnitude binary64 (1 / 2 ^ 24) (1 / 2 ^ 24) 6 = 6 + 1 / 2 ^ 50 \<and>
   detectStationary binary64 (serviceDetector binary64) 1000 1000 (1 / 2 ^ 24) (1 / 2 ^ 24) 6
     \<noteq> detectStationary binary64 (serviceDetector binary64) 1000 1000 6 (1 / 2 ^ 24) (1 / 2 ^ 24)"
proof -
  have "deviation binary64 (1 / 2 ^ 24) (1 / 2 ^ 24) 6
      \<noteq> deviation binary64 6 (1 / 2 ^ 24) (1 / 2 ^ 24)"
    unfolding deviation_binary64_xyz deviation_binary64_yzx by simp
  then have "deviationHistory (snd (detectStationary binary64 (serviceDetector binary64)
        1000 1000 (1 / 2 ^ 24) (1 / 2 ^ 24) 6))
      \<noteq> deviationHistory (snd (detectStationary binary64 (serviceDetector binary64)
        1000 1000 6 (1 / 2 ^ 24) (1 / 2 ^ 24)))"
    unfolding first_window by simp
  then have "detectStationary binary64 (serviceDetector binary64) 1000 1000 (1 / 2 ^ 24) (1 / 2 ^ 24) 6
     \<noteq> detectStationary binary64 (serviceDetector binary64) 1000 1000 6 (1 / 2 ^ 24) (1 / 2 ^ 24)"
    by auto
  with magnitude_binary64_xyz magnitude_binary64_yzx show ?thesis by blast
qed

lemma detect_through_magnitude:
  assumes "magnitude rnd x' y' z' = magnitude rnd x y z"
  shows "detectStationary rnd d now1 now x' y' z' = detectStationary rnd d now1 now x y z"
  using assms by (simp add: detectStationary_def deviation_def)

lemma magnitude_symmetries:
  "magnitude rnd (- x) y z = magnitude rnd x y z"
  "magnitude rnd x (- y) z = magnitude rnd x y z"
  "magnitude rnd x y (- z) = magnitude rnd x y z"
  "magnitude rnd y x z = magnitude rnd x y z"
  by (simp_all add: magnitude_def add.commute)

lemma magnitude_exact_permutations:
  "magnitude (\<lambda>v. v) x z y = magnitude (\<lambda>v. v) x y z"
  "magnitude (\<lambda>v. v) y z x = magnitude (\<lambda>v. v) x y z"
  "magnitude (\<lambda>v. v) z x y = magnitude (\<lambda>v. v) x y z"
  "magnitude (\<lambda>v. v) z y x = magnitude (\<lambda>v. v) x y z"
  by (simp_all add: magnitude_def add_ac)

text \<open>
  Claim C10, amended. \<open>detectStationary\<close> depends on \<open>(x, y, z)\<close> only through the
  magnitude as computed: samples of equal computed magnitude give the same result and
  the same detector. Under every rounding, negating an axis or exchanging \<open>x\<close> and
  \<open>y\<close> leaves the computed magnitude, and so the call, unchanged. Under exact
  arithmetic every permutation of the axes does.
\<close>

theorem detect_depends_on_magnitude:
  "(magnitude rnd x' y' z' = magnitude rnd x y z \<longrightarrow>
      detectStationary rnd d now1 now x' y' z' = detectStationary rnd d now1 now x y z) \<and>
   detectStationary rnd d now1 now (- x) y z = detectStationary rnd d now1 now x y z \<and>
   detectStationary rnd d now1 now x (- y) z = detectStationary rnd d now1 now x y z \<and>
   detectStationary rnd d now1 now x y (- z) = detectStationary rnd d now1 now x y z \<and>
   detectStationary rnd d now1 now y x z = detectStationary rnd d now1 now x y z \<and>
   detectStationary (\<lambda>v. v) d now1 now x z y = detectStationary (\<lambda>v. v) d now1 now x y z \<and>
   detectStationary (\<lambda>v. v) d now1 now y z x = detectStationary (\<lambda>v. v) d now1 now x y z \<and>
   detectStationary (\<lambda>v. v) d now1 now z x y = detectStationary (\<lambda>v. v) d now1 now x y z \<and>
   detectStationary (\<lambda>v. v) d now1 now z y x = detectStationary (\<lambda>v. v) d now1 now x y z"
  by (intro conjI impI detect_through_magnitude magnitude_symmetries
      magnitude_exact_permutations)

lemma sqrt_25: "sqrt 25 = 5"
  by (rule real_sqrt_unique) simp_all

theorem detect_depends_on_magnitude_witness:
  "magnitude (\<lambda>v. v) 3 4 0 = magnitude (\<lambda>v. v) 0 0 5 \<and>
   detectStationary (\<lambda>v. v) stationaryExample 3600 3601 3 4 0
     = detectStationary (\<lambda>v. v) stationaryExample 3600 3601 0 0 5"
proof -
  have m: "magnitude (\<lambda>v. v) 3 4 0 = magnitude (\<lambda>v. v) 0 0 5"
    by (simp add: magnitude_def sqrt_25)
  with detect_depends_on_magnitude [of "\<lambda>v. v" 3 4 0 0 0 5 stationaryExample 3600 3601]
  show ?thesis by blast
qed

section \<open>The drift rule\<close>

lemma threshold_approximate:
  assumes "rounds rnd"
  shows "1 / 10 < GPS_DRIFT_SPEED_THRESHOLD rnd" and "GPS_DRIFT_SPEED_THRESHOLD rnd < 1 / 2"
proof -
  from assms have "\<bar>rnd (3 / 10) - 3 / 10\<bar> \<le> \<bar>3 / 10\<bar> / 2 ^ 53"
    unfolding rounds_def by (rule spec)
  then have "\<bar>rnd (3 / 10) - 3 / 10\<bar> \<le> 1 / 10"
    by simp
  then show "1 / 10 < GPS_DRIFT_SPEED_THRESHOLD rnd" "GPS_DRIFT_SPEED_THRESHOLD rnd < 1 / 2"
    unfolding GPS_DRIFT_SPEED_THRESHOLD_def by linarith+
qed

text \<open>
  Claim C1. On a fix, the drift warning is produced if and only if the detector is
  stationary and the speed of the fix, 0 when absent, is greater than the threshold
  constant; the warning carries that speed. The constant is the number written \<open>0.3\<close>:
  under exact arithmetic, and in the language's format for every speed of that format,
  the test is \<open>0.3 < speed\<close>. Under every rounding of relative error at most
  \<open>2\<^sup>-\<^sup>5\<^sup>3\<close>, a stationary detector and the speed 0.5 give a warning carrying 0.5,
  and the speed 0.1 gives none. A detector that is not stationary gives none at any
  speed.
\<close>

theorem gps_drift_rule:
  "(positionCallback rnd d coordsSpeed \<noteq> None \<longleftrightarrow>
      getIsStationary d \<and> GPS_DRIFT_SPEED_THRESHOLD rnd < nullish coordsSpeed 0) \<and>
   (positionCallback rnd d coordsSpeed \<noteq> None \<longrightarrow>
      positionCallback rnd d coordsSpeed = Some \<lparr>gpsSpeed = nullish coordsSpeed 0\<rparr>) \<and>
   (positionCallback (\<lambda>v. v) d coordsSpeed \<noteq> None \<longleftrightarrow>
      getIsStationary d \<and> 3 / 10 < nullish coordsSpeed 0) \<and>
   (binary64 (nullish coordsSpeed 0) = nullish coordsSpeed 0 \<longrightarrow>
      (positionCallback binary64 d coordsSpeed \<noteq> None \<longleftrightarrow>
         getIsStationary d \<and> 3 / 10 < nullish coordsSpeed 0)) \<and>
   (rounds rnd \<and> getIsStationary d \<longrightarrow>
      positionCallback rnd d (Some (1 / 2)) = Some \<lparr>gpsSpeed = 1 / 2\<rparr> \<and>
      positionCallback rnd d (Some (1 / 10)) = None) \<and>
   (\<not> getIsStationary d \<longrightarrow> positionCallback rnd d coordsSpeed = None)"
proof (intro conjI impI)
  show "positionCallback rnd d coordsSpeed \<noteq> None \<longleftrightarrow>
      getIsStationary d \<and> GPS_DRIFT_SPEED_THRESHOLD rnd < nullish coordsSpeed 0"
    by (simp add: positionCallback_def Let_def)
next
  assume "positionCallback rnd d coordsSpeed \<noteq> None"
  then show "positionCallback rnd d coordsSpeed = Some \<lparr>gpsSpeed = nullish coordsSpeed 0\<rparr>"
    by (simp add: positionCallback_def Let_def split: if_splits)
next
  show "positionCallback (\<lambda>v. v) d coordsSpeed \<noteq> None \<longleftrightarrow>
      getIsStationary d \<and> 3 / 10 < nullish coordsSpeed 0"
    by (simp add: positionCallback_def Let_def GPS_DRIFT_SPEED_THRESHOLD_def)
next
  assume "binary64 (nullish coordsSpeed 0) = nullish coordsSpeed 0"
  then show "positionCallback binary64 d coordsSpeed \<noteq> None \<longleftrightarrow>
         getIsStationary d \<and> 3 / 10 < nullish coordsSpeed 0"
    by (simp add: positionCallback_def Let_def GPS_DRIFT_SPEED_THRESHOLD_def threshold_gap)
next
  assume h: "rounds rnd \<and> getIsStationary d"
  with threshold_approximate [of rnd]
  show "positionCallback rnd d (Some (1 / 2)) = Some \<lparr>gpsSpeed = 1 / 2\<rparr>"
    by (simp add: positionCallback_def Let_def nullish_def)
  from h threshold_approximate [of rnd]
  show "positionCallback rnd d (Some (1 / 10)) = None"
    by (simp add: positionCallback_def Let_def nullish_def)
next
  assume "\<not> getIsStationary d"
  then show "positionCallback rnd d coordsSpeed = None"
    by (simp add: positionCallback_def Let_def)
qed

lemma binary64_half: "binary64 (1 / 2) = 1 / 2"
  by (rule binary64_exact [where k = "- 1" and n = "2 ^ 52"]) simp_all

theorem gps_drift_rule_witness:
  "rounds binary64 \<and> getIsStationary stationaryExample \<and>
   binary64 (nullish (Some (1 / 2)) 0) = nullish (Some (1 / 2)) 0 \<and>
   positionCallback binary64 stationaryExample (Some (1 / 2)) = Some \<lparr>gpsSpeed = 1 / 2\<rparr> \<and>
   positionCallback binary64 stationaryExample (Some (1 / 10)) = None \<and>
   \<not> getIsStationary (reset stationaryExample) \<and>
   positionCallback binary64 (reset stationaryExample) (Some 5) = None"
proof -
  have a: "getIsStationary stationaryExample" "\<not> getIsStationary (reset stationaryExample)"
    by (simp_all add: getIsStationary_def stationaryExample_def reset_def)
  have b: "binary64 (nullish (Some (1 / 2)) 0) = nullish (Some (1 / 2)) 0"
    by (simp add: nullish_def binary64_half)
  from gps_drift_rule [of binary64 stationaryExample "Some (1 / 2)"] rounds_binary64 a(1)
  have c: "positionCallback binary64 stationaryExample (Some (1 / 2)) = Some \<lparr>gpsSpeed = 1 / 2\<rparr>"
    "positionCallback binary64 stationaryExample (Some (1 / 10)) = None"
    by blast+
  from gps_drift_rule [of binary64 "reset stationaryExample" "Some 5"] a(2)
  have d: "positionCallback binary64 (reset stationaryExample) (Some 5) = None"
    by blast
  from rounds_binary64 a b c d show ?thesis by blast
qed

end
